theory Spec2Isabelle
  imports Main "HOL-Library.AList" "HOL-Library.Sublist"
begin

section \<open>Strings\<close>

text \<open>
  A Python \<open>str\<close> is a \<open>string\<close>. On ASCII text \<open>str.lower\<close> and \<open>str.upper\<close> are the
  two maps below; they leave every other character as it is, which Python does not, so a
  property that rests on them for a string that is not a literal of the source is stated
  for ASCII text (\<open>ascii\<close>).
\<close>

definition lower_char :: "char \<Rightarrow> char" where
  "lower_char c =
     (let n = (of_char c :: nat) in if 65 \<le> n \<and> n \<le> 90 then char_of (n + 32) else c)"

definition upper_char :: "char \<Rightarrow> char" where
  "upper_char c =
     (let n = (of_char c :: nat) in if 97 \<le> n \<and> n \<le> 122 then char_of (n - 32) else c)"

definition lower :: "string \<Rightarrow> string" where
  "lower s = map lower_char s"

definition upper :: "string \<Rightarrow> string" where
  "upper s = map upper_char s"

definition ascii :: "string \<Rightarrow> bool" where
  "ascii s = list_all (\<lambda>c. (of_char c :: nat) < 128) s"

text \<open>\<open>s.startswith(p)\<close> and the substring test \<open>p in s\<close>.\<close>

fun startswith :: "string \<Rightarrow> string \<Rightarrow> bool" where
  "startswith s [] = True"
| "startswith [] (p # ps) = False"
| "startswith (c # cs) (p # ps) = (c = p \<and> startswith cs ps)"

fun contains :: "string \<Rightarrow> string \<Rightarrow> bool" where
  "contains [] p = (p = [])"
| "contains (c # cs) p = (startswith (c # cs) p \<or> contains cs p)"

text \<open>
  \<open>re.search(p, s, re.IGNORECASE)\<close> for a pattern \<open>p\<close> of literal characters, which is what
  \<open>Series.str.contains(p, case=False)\<close> runs on each string of the column.
\<close>

definition icontains :: "string \<Rightarrow> string \<Rightarrow> bool" where
  "icontains s p = contains (lower s) (lower p)"

text \<open>\<open>s.split(sep)\<close> for a separator of one character: never empty, one more piece than
  there are separators.\<close>

fun split :: "char \<Rightarrow> string \<Rightarrow> string list" where
  "split sep [] = [[]]"
| "split sep (c # cs) =
     (if c = sep then [] # split sep cs
      else (case split sep cs of
              [] \<Rightarrow> [[c]]
            | w # ws \<Rightarrow> (c # w) # ws))"

text \<open>\<open>str(n)\<close> for an integer.\<close>

definition digit_char :: "nat \<Rightarrow> char" where
  "digit_char d = char_of (48 + d)"

function str_nat :: "nat \<Rightarrow> string" where
  "str_nat n = (if n < 10 then [digit_char n] else str_nat (n div 10) @ [digit_char (n mod 10)])"
  by pat_completeness auto
termination
  by (relation "measure (\<lambda>n. n)") auto

declare str_nat.simps [simp del]

definition str_int :: "int \<Rightarrow> string" where
  "str_int i = (if i < 0 then CHR ''-'' # str_nat (nat (- i)) else str_nat (nat i))"


section \<open>The catalog\<close>

text \<open>
  A field of the CSV file as \<open>pd.read_csv\<close> takes it: missing (an empty field), a text,
  or a whole number in decimal notation. Decimal fractions and truth values do not occur in
  a catalog and are left out. A row gives the field of every column name; a frame is the
  list of its column names and its rows (a row is read at the names of the frame only).
\<close>

datatype cell = NaN | Str string | Num int

type_synonym row = "string \<Rightarrow> cell"

record dataframe =
  columns :: "string list"
  rows :: "row list"

text \<open>
  \<open>pd.read_csv\<close> types a column as a whole: a column with a text in it, and every column
  of a file without rows, is an \<open>object\<close> column; a column of whole numbers is \<open>int64\<close>;
  a column of whole numbers and empty fields, or of empty fields only, is \<open>float64\<close>.
  A selection of rows keeps the types of the columns, so they are read off the catalog.
\<close>

datatype dtype = Int64 | Float64 | Object

fun is_text :: "cell \<Rightarrow> bool" where
  "is_text (Str s) = True"
| "is_text c = False"

fun is_number :: "cell \<Rightarrow> bool" where
  "is_number (Num i) = True"
| "is_number c = False"

definition column_dtype :: "cell list \<Rightarrow> dtype" where
  "column_dtype cs =
     (if cs = [] \<or> list_ex is_text cs then Object
      else if list_all is_number cs then Int64
      else Float64)"

definition dtype_of :: "dataframe \<Rightarrow> string \<Rightarrow> dtype" where
  "dtype_of df c = column_dtype (map (\<lambda>r. r c) (rows df))"

text \<open>
  The Python value a field is loaded as: \<open>nan\<close>, a \<open>str\<close>, an integer, or the float of a
  whole number. In an \<open>object\<close> column a number is the text that was read; in a \<open>float64\<close>
  column it is a float.
\<close>

datatype pvalue = PNaN | PStr string | PInt int | PFloat int

fun load :: "dtype \<Rightarrow> cell \<Rightarrow> pvalue" where
  "load dt NaN = PNaN"
| "load dt (Str s) = PStr s"
| "load Object (Num i) = PStr (str_int i)"
| "load Int64 (Num i) = PInt i"
| "load Float64 (Num i) = PFloat i"

text \<open>The value of row \<open>r\<close> in column \<open>c\<close> of the frame.\<close>

definition item :: "dataframe \<Rightarrow> row \<Rightarrow> string \<Rightarrow> pvalue" where
  "item df r c = load (dtype_of df c) (r c)"

text \<open>\<open>str(v)\<close>, which is what \<open>astype(str)\<close> applies to each value; \<open>pd.notna(v)\<close>.
  The float of a whole number is written with \<open>.0\<close> (for a number a float holds exactly
  and writes without an exponent, see \<open>exact_numbers\<close>).\<close>

fun py_str :: "pvalue \<Rightarrow> string" where
  "py_str PNaN = ''nan''"
| "py_str (PStr s) = s"
| "py_str (PInt i) = str_int i"
| "py_str (PFloat i) = str_int i @ ''.0''"

fun notna :: "pvalue \<Rightarrow> bool" where
  "notna PNaN = False"
| "notna v = True"

text \<open>The exceptions the code can meet: a column that is not in the frame, the \<open>.str\<close>
  accessor on a column that is not an \<open>object\<close> column, \<open>requests.post\<close> failing (with the
  text of the exception), \<open>raise_for_status\<close> on a status from 400 to 599, \<open>'?' in url\<close>
  on a URL that is not a string, \<open>split('?')[1]\<close> out of range, and \<open>write_pdf\<close>
  failing.\<close>

datatype exn =
    KeyError
  | AttributeError
  | RequestException string
  | HTTPError nat
  | TypeError
  | IndexError
  | RenderException string

text \<open>Running on after a step that may raise.\<close>

fun then_do :: "exn + 'a \<Rightarrow> ('a \<Rightarrow> exn + 'b) \<Rightarrow> exn + 'b" where
  "then_do (Inl x) f = Inl x"
| "then_do (Inr a) f = f a"

text \<open>\<open>df[c]\<close> and \<open>df[c].str\<close>, as the value of the column in a row.\<close>

definition getitem :: "dataframe \<Rightarrow> string \<Rightarrow> exn + (row \<Rightarrow> pvalue)" where
  "getitem df c = (if c \<in> set (columns df) then Inr (\<lambda>r. item df r c) else Inl KeyError)"

definition str_accessor :: "dataframe \<Rightarrow> string \<Rightarrow> exn + (row \<Rightarrow> pvalue)" where
  "str_accessor df c =
     then_do (getitem df c)
       (\<lambda>col. if dtype_of df c = Object then Inr col else Inl AttributeError)"

text \<open>
  Element-wise operations on a column of strings: \<open>.str.lower()\<close> keeps a missing value
  missing; \<open>== s\<close> and \<open>.isin(xs)\<close> are false on a value that is not that string;
  \<open>.str.contains(p, case=False, na=False)\<close> is false on a missing value.
\<close>

fun str_lower :: "pvalue \<Rightarrow> pvalue" where
  "str_lower (PStr s) = PStr (lower s)"
| "str_lower v = PNaN"

definition eq_str :: "pvalue \<Rightarrow> string \<Rightarrow> bool" where
  "eq_str v s = (v = PStr s)"

fun isin :: "pvalue \<Rightarrow> string list \<Rightarrow> bool" where
  "isin (PStr s) xs = (s \<in> set xs)"
| "isin v xs = False"

fun str_contains :: "pvalue \<Rightarrow> string \<Rightarrow> bool" where
  "str_contains (PStr s) p = icontains s p"
| "str_contains v p = False"

text \<open>The regular expression \<open>RC/RV|RCRV\<close>, an alternative of two literal patterns.\<close>

definition contains_rcrv :: "pvalue \<Rightarrow> bool" where
  "contains_rcrv v = (str_contains v ''RC/RV'' \<or> str_contains v ''RCRV'')"

text \<open>\<open>df = df[test(df[c].str)]\<close> and \<open>df = df[test(df[c])]\<close>: the rows whose value in
  column \<open>c\<close> passes the test, or the exception of the access.\<close>

definition where_str ::
  "dataframe \<Rightarrow> string \<Rightarrow> (pvalue \<Rightarrow> bool) \<Rightarrow> row list \<Rightarrow> exn + row list" where
  "where_str cat c test rs =
     then_do (str_accessor cat c) (\<lambda>col. Inr (filter (\<lambda>r. test (col r)) rs))"

definition where_col ::
  "dataframe \<Rightarrow> string \<Rightarrow> (pvalue \<Rightarrow> bool) \<Rightarrow> row list \<Rightarrow> exn + row list" where
  "where_col cat c test rs =
     then_do (getitem cat c) (\<lambda>col. Inr (filter (\<lambda>r. test (col r)) rs))"


section \<open>Filtering the catalog\<close>

text \<open>
  The filter criteria: in \<open>app.py\<close> the JSON object of the request, read at the keys
  \<open>degree_type\<close>, \<open>year\<close>, \<open>semester\<close>, \<open>regulation\<close>, \<open>exam_type\<close> and \<open>rc_rv\<close>; in
  \<open>mcp.py\<close> the six optional string arguments of the tool (the last one is named
  \<open>is_rc_rv\<close> there). \<open>None\<close> is a key that is absent (or null). Python tests a value with
  \<open>if v\<close>: a string is true when it is not empty.
\<close>

record filters =
  degree_type :: "string option"
  year :: "string option"
  semester :: "string option"
  regulation :: "string option"
  exam_type :: "string option"
  rc_rv :: "string option"

definition no_filters :: filters where
  "no_filters = \<lparr>degree_type = None, year = None, semester = None, regulation = None,
                  exam_type = None, rc_rv = None\<rparr>"

fun truthy :: "string option \<Rightarrow> bool" where
  "truthy None = False"
| "truthy (Some s) = (s \<noteq> [])"

text \<open>
  \<open>if k in filters and filters[k]: df = step(filters[k], df)\<close>: the step runs on the value
  only when it is there and true.
\<close>

fun when_set ::
  "string option \<Rightarrow> (string \<Rightarrow> row list \<Rightarrow> exn + row list) \<Rightarrow> row list \<Rightarrow> exn + row list" where
  "when_set None step rs = Inr rs"
| "when_set (Some v) step rs = (if v \<noteq> [] then step v rs else Inr rs)"

subsection \<open>\<open>filter_results\<close> of \<open>app.py\<close>\<close>

definition app_degree_step :: "dataframe \<Rightarrow> string \<Rightarrow> row list \<Rightarrow> exn + row list" where
  "app_degree_step cat v rs =
     (if v = ''BTech''
      then where_str cat ''degree'' (\<lambda>x. isin (str_lower x) [''btech'', ''b.e'']) rs
      else if v = ''B.Pharmacy''
      then where_str cat ''degree'' (\<lambda>x. eq_str (str_lower x) ''bpharmacy'') rs
      else if v = ''MTech''
      then where_str cat ''degree'' (\<lambda>x. eq_str (str_lower x) ''mtech'') rs
      else if v = ''M.Pharmacy''
      then where_str cat ''degree'' (\<lambda>x. eq_str (str_lower x) ''mpharmacy'') rs
      else Inr rs)"

definition app_year_step :: "dataframe \<Rightarrow> string \<Rightarrow> row list \<Rightarrow> exn + row list" where
  "app_year_step cat v rs = where_str cat ''Year'' (\<lambda>x. eq_str (str_lower x) (lower v)) rs"

definition app_semester_step :: "dataframe \<Rightarrow> string \<Rightarrow> row list \<Rightarrow> exn + row list" where
  "app_semester_step cat v rs =
     where_str cat ''Semester'' (\<lambda>x. eq_str (str_lower x) (lower v)) rs"

definition app_regulation_step :: "dataframe \<Rightarrow> string \<Rightarrow> row list \<Rightarrow> exn + row list" where
  "app_regulation_step cat v rs =
     where_str cat ''Regulation'' (\<lambda>x. eq_str (str_lower x) (lower v)) rs"

definition app_exam_type_step :: "dataframe \<Rightarrow> string \<Rightarrow> row list \<Rightarrow> exn + row list" where
  "app_exam_type_step cat v rs =
     (if v = ''Regular''
      then where_str cat ''Exam_Type'' (\<lambda>x. eq_str (str_lower x) ''regular'') rs
      else if v = ''Supplementary''
      then where_str cat ''Exam_Type'' (\<lambda>x. str_contains x ''supplementary'') rs
      else Inr rs)"

definition app_rc_rv_step :: "dataframe \<Rightarrow> string \<Rightarrow> row list \<Rightarrow> exn + row list" where
  "app_rc_rv_step cat v rs =
     (if v = ''Yes'' then where_str cat ''Title'' contains_rcrv rs else Inr rs)"

text \<open>The six steps in the order of the source, on a copy of the catalog; the first
  exception ends the function.\<close>

definition app_filter_results :: "filters \<Rightarrow> dataframe \<Rightarrow> exn + row list" where
  "app_filter_results f cat =
     then_do (when_set (degree_type f) (app_degree_step cat) (rows cat)) (\<lambda>rs.
     then_do (when_set (year f) (app_year_step cat) rs) (\<lambda>rs.
     then_do (when_set (semester f) (app_semester_step cat) rs) (\<lambda>rs.
     then_do (when_set (regulation f) (app_regulation_step cat) rs) (\<lambda>rs.
     then_do (when_set (exam_type f) (app_exam_type_step cat) rs) (\<lambda>rs.
     when_set (rc_rv f) (app_rc_rv_step cat) rs)))))"

subsection \<open>\<open>filter_results\<close> of \<open>mcp.py\<close>\<close>

definition mcp_degree_step :: "dataframe \<Rightarrow> string \<Rightarrow> row list \<Rightarrow> exn + row list" where
  "mcp_degree_step cat v rs = where_col cat ''degree'' (\<lambda>x. eq_str x (lower v)) rs"

definition mcp_year_step :: "dataframe \<Rightarrow> string \<Rightarrow> row list \<Rightarrow> exn + row list" where
  "mcp_year_step cat v rs = where_col cat ''Year'' (\<lambda>x. eq_str x v) rs"

definition mcp_semester_step :: "dataframe \<Rightarrow> string \<Rightarrow> row list \<Rightarrow> exn + row list" where
  "mcp_semester_step cat v rs = where_col cat ''Semester'' (\<lambda>x. eq_str x v) rs"

definition mcp_regulation_step :: "dataframe \<Rightarrow> string \<Rightarrow> row list \<Rightarrow> exn + row list" where
  "mcp_regulation_step cat v rs = where_col cat ''Regulation'' (\<lambda>x. eq_str x (upper v)) rs"

definition mcp_exam_type_step :: "dataframe \<Rightarrow> string \<Rightarrow> row list \<Rightarrow> exn + row list" where
  "mcp_exam_type_step cat v rs =
     (if v = ''Regular''
      then where_col cat ''Exam_Type'' (\<lambda>x. eq_str x ''Regular'') rs
      else if v = ''Supplementary''
      then where_str cat ''Exam_Type'' (\<lambda>x. str_contains x ''supplementary'') rs
      else Inr rs)"

definition mcp_rc_rv_step :: "dataframe \<Rightarrow> string \<Rightarrow> row list \<Rightarrow> exn + row list" where
  "mcp_rc_rv_step cat v rs =
     (if v = ''Yes'' then where_str cat ''Title'' contains_rcrv rs
      else if v = ''No'' then where_str cat ''Title'' (\<lambda>x. \<not> contains_rcrv x) rs
      else Inr rs)"

definition mcp_filter_results :: "filters \<Rightarrow> dataframe \<Rightarrow> exn + row list" where
  "mcp_filter_results f cat =
     then_do (when_set (degree_type f) (mcp_degree_step cat) (rows cat)) (\<lambda>rs.
     then_do (when_set (year f) (mcp_year_step cat) rs) (\<lambda>rs.
     then_do (when_set (semester f) (mcp_semester_step cat) rs) (\<lambda>rs.
     then_do (when_set (regulation f) (mcp_regulation_step cat) rs) (\<lambda>rs.
     then_do (when_set (exam_type f) (mcp_exam_type_step cat) rs) (\<lambda>rs.
     when_set (rc_rv f) (mcp_rc_rv_step cat) rs)))))"


section \<open>Facet values\<close>

text \<open>\<open>Series.unique()\<close>: the values in the order they are first seen.\<close>

fun unique :: "'a list \<Rightarrow> 'a list" where
  "unique [] = []"
| "unique (x # xs) = x # unique (filter (\<lambda>y. y \<noteq> x) xs)"

definition get_unique_values :: "string \<Rightarrow> dataframe \<Rightarrow> string list" where
  "get_unique_values c df =
     (if c \<notin> set (columns df) then []
      else (let values = unique (map py_str (filter notna (map (\<lambda>r. item df r c) (rows df))))
            in filter (\<lambda>v. lower v \<notin> set [''unknown'', ''nan'']) values))"


section \<open>Producing the result document\<close>

text \<open>
  The form posted to \<open>http://results.jntuh.ac.in/resultAction\<close>: the \<open>params\<close> dictionary
  (in insertion order) and the \<open>Referer\<close> header; the other headers are constants.
\<close>

type_synonym params = "(string \<times> pvalue) list"

record request =
  req_data :: params
  req_referer :: string

text \<open>What \<open>requests.post\<close> does: raise, or return a response with a status code and a text.\<close>

datatype response = Raises string | Response nat string

text \<open>
  The collaborators of one call: the remote endpoint, the renderer (\<open>write_pdf\<close> raises or
  writes the bytes of the document), the clock (\<open>datetime.now().strftime(...)\<close>) and
  \<open>PDF_DIR\<close> of \<open>app.py\<close>. The world records what a call did: the requests sent and the
  files written (path and content).
\<close>

record env =
  post :: "request \<Rightarrow> response"
  write_pdf :: "string \<Rightarrow> string + string"
  timestamp :: string
  pdf_dir :: string

record world =
  posts :: "request list"
  files :: "(string \<times> string) list"

text \<open>\<open>df[df['examCode'].astype(str) == str(exam_code)]\<close>\<close>

definition find_rows :: "dataframe \<Rightarrow> string \<Rightarrow> exn + row list" where
  "find_rows df exam_code = where_col df ''examCode'' (\<lambda>x. py_str x = exam_code) (rows df)"

text \<open>\<open>result_row.iloc[0][c]\<close> for the first row \<open>r\<close> of the selection.\<close>

definition row_item :: "dataframe \<Rightarrow> row \<Rightarrow> string \<Rightarrow> exn + pvalue" where
  "row_item df r c = (if c \<in> set (columns df) then Inr (item df r c) else Inl KeyError)"

text \<open>\<open>key, value = param.split('=', 1)\<close>, for a \<open>param\<close> that contains \<open>=\<close>.\<close>

definition split_first :: "char \<Rightarrow> string \<Rightarrow> string \<times> string" where
  "split_first sep s = (takeWhile (\<lambda>c. c \<noteq> sep) s, drop 1 (dropWhile (\<lambda>c. c \<noteq> sep) s))"

text \<open>The loop \<open>for param in query_string.split('&')\<close>.\<close>

fun add_params :: "string list \<Rightarrow> params \<Rightarrow> params" where
  "add_params [] ps = ps"
| "add_params (param # rest) ps =
     add_params rest
       (if CHR ''='' \<in> set param
        then (case split_first CHR ''='' param of (key, value) \<Rightarrow> AList.update key (PStr value) ps)
        else ps)"

text \<open>\<open>if '?' in url: query_string = url.split('?')[1]; ...\<close>\<close>

definition extract_params :: "string \<Rightarrow> params \<Rightarrow> exn + params" where
  "extract_params url ps =
     (if CHR ''?'' \<in> set url
      then (case split CHR ''?'' url of
              _ # query_string # _ \<Rightarrow> Inr (add_params (split CHR ''&'' query_string) ps)
            | _ \<Rightarrow> Inl IndexError)
      else Inr ps)"

text \<open>
  The request both entry points build from the value of the \<open>URL\<close> column: \<open>'?' in url\<close>
  raises on a value that is not a string; then the parameters of the URL are put on top of
  \<open>ps\<close>, then \<open>params['htno'] = htno\<close>; the URL is the \<open>Referer\<close>.
\<close>

fun build_request :: "pvalue \<Rightarrow> params \<Rightarrow> string \<Rightarrow> exn + request" where
  "build_request (PStr url) ps htno =
     then_do (extract_params url ps)
       (\<lambda>ps'. Inr \<lparr>req_data = AList.update ''htno'' (PStr htno) ps', req_referer = url\<rparr>)"
| "build_request v ps htno = Inl TypeError"

definition result_filename :: "env \<Rightarrow> string \<Rightarrow> string \<Rightarrow> string" where
  "result_filename e htno exam_code =
     ''result_'' @ htno @ ''_'' @ exam_code @ ''_'' @ timestamp e @ ''.pdf''"

subsection \<open>\<open>mcp_generate_result\<close> of \<open>app.py\<close>\<close>

text \<open>
  The replies of the route: an error with its message and HTTP status; the 500 reply
  ``Failed to fetch results: ...'' for a \<open>RequestException\<close>; the 500 reply whose message is
  the text of any other exception; the success reply with \<open>pdf_url\<close>, \<open>filename\<close> and
  \<open>size\<close>.
\<close>

datatype reply =
    Error_reply nat string
  | Fetch_failed exn
  | Exception_reply exn
  | Success_reply string string nat

text \<open>What the route does with the response of the endpoint.\<close>

definition app_respond ::
  "env \<Rightarrow> string \<Rightarrow> string \<Rightarrow> request \<Rightarrow> world \<Rightarrow> reply \<times> world" where
  "app_respond e exam_code htno rq w =
     (let w1 = w\<lparr>posts := posts w @ [rq]\<rparr>
      in case post e rq of
           Raises x \<Rightarrow> (Fetch_failed (RequestException x), w1)
         | Response status text \<Rightarrow>
             if 400 \<le> status \<and> status < 600 then (Fetch_failed (HTTPError status), w1)
             else if contains text ''No Records Found''
                     \<or> contains text ''Invalid Hall Ticket Number''
             then (Error_reply 404 ''No records found for this roll number'', w1)
             else (let pdf_filename = result_filename e htno exam_code;
                       pdf_path = pdf_dir e @ ''/'' @ pdf_filename
                   in case write_pdf e text of
                        Inl x \<Rightarrow> (Exception_reply (RenderException x), w1)
                      | Inr bytes \<Rightarrow>
                          (Success_reply (''/static/pdfs/'' @ pdf_filename)
                             pdf_filename (length bytes),
                           w1\<lparr>files := files w1 @ [(pdf_path, bytes)]\<rparr>)))"

text \<open>The request of the route for the row found: \<open>url = result_row.iloc[0]['URL']\<close>,
  \<open>params = {}\<close>, then the parameters of the URL and \<open>htno\<close>.\<close>

definition app_request :: "dataframe \<Rightarrow> row \<Rightarrow> string \<Rightarrow> exn + request" where
  "app_request df r htno = then_do (row_item df r ''URL'') (\<lambda>url. build_request url [] htno)"

text \<open>The body of the route once its two inputs are there: the row is looked up, the
  request is built from its URL and sent.\<close>

definition app_generate :: "env \<Rightarrow> dataframe \<Rightarrow> string \<Rightarrow> string \<Rightarrow> world \<Rightarrow> reply \<times> world" where
  "app_generate e df exam_code htno w =
     (case find_rows df exam_code of
        Inl x \<Rightarrow> (Exception_reply x, w)
      | Inr [] \<Rightarrow> (Error_reply 404 ''Invalid exam code'', w)
      | Inr (r # _) \<Rightarrow>
          (case app_request df r htno of
             Inl x \<Rightarrow> (Exception_reply x, w)
           | Inr rq \<Rightarrow> app_respond e exam_code htno rq w))"

text \<open>
  The route reads \<open>examCode\<close> and \<open>htno\<close> from the JSON body with \<open>data.get\<close> (\<open>None\<close>
  when the key is absent) and answers 400 unless both are true.
\<close>

definition mcp_generate_result ::
  "env \<Rightarrow> dataframe \<Rightarrow> string option \<Rightarrow> string option \<Rightarrow> world \<Rightarrow> reply \<times> world" where
  "mcp_generate_result e df exam_code htno w =
     (if \<not> truthy exam_code \<or> \<not> truthy htno
      then (Error_reply 400 ''examCode and htno are required'', w)
      else (case (exam_code, htno) of
              (Some c, Some h) \<Rightarrow> app_generate e df c h w
            | _ \<Rightarrow> (Error_reply 400 ''examCode and htno are required'', w)))"

subsection \<open>\<open>get_result_pdf\<close> of \<open>mcp.py\<close>\<close>

text \<open>
  The results of the tool: the error dictionary with its message; the error dictionary
  ``Failed to generate PDF: ...'' for an exception inside the \<open>try\<close>; the success dictionary,
  whose message names \<open>pdf_path\<close>; and an exception that leaves the function (the code
  before the \<open>try\<close> is not guarded).
\<close>

datatype tool_result =
    Tool_error string
  | Tool_failed exn
  | Tool_success string
  | Tool_raised exn

text \<open>\<open>x if pd.notna(x) else 'null'\<close>\<close>

definition or_null :: "pvalue \<Rightarrow> pvalue" where
  "or_null v = (if notna v then v else PStr ''null'')"

text \<open>The six assignments ``Always include the basic parameters from the DataFrame''.\<close>

definition basic_params :: "dataframe \<Rightarrow> row \<Rightarrow> exn + params" where
  "basic_params df r =
     then_do (row_item df r ''degree'') (\<lambda>v1.
     then_do (row_item df r ''examCode'') (\<lambda>v2.
     then_do (row_item df r ''etype'') (\<lambda>v3.
     then_do (row_item df r ''type'') (\<lambda>v4.
     then_do (row_item df r ''result'') (\<lambda>v5.
     then_do (row_item df r ''grad'') (\<lambda>v6.
       Inr (AList.update ''grad'' (or_null v6)
           (AList.update ''result'' (or_null v5)
           (AList.update ''type'' (or_null v4)
           (AList.update ''etype'' (or_null v3)
           (AList.update ''examCode'' v2
           (AList.update ''degree'' v1 []))))))))))))"

text \<open>The request of the tool for the row found: the URL is read, the basic parameters
  are set, then the parameters of the URL and \<open>htno\<close>.\<close>

definition mcp_request :: "dataframe \<Rightarrow> row \<Rightarrow> string \<Rightarrow> exn + request" where
  "mcp_request df r htno =
     then_do (row_item df r ''URL'') (\<lambda>url.
     then_do (basic_params df r) (\<lambda>ps. build_request url ps htno))"

definition error_indicators :: "string list" where
  "error_indicators =
     [''No Records Found'', ''Invalid Hall Ticket Number'', ''Invalid HTNO'', ''Result Not Found'']"

text \<open>What the tool does with the response of the endpoint, inside its \<open>try\<close>.\<close>

definition mcp_respond ::
  "env \<Rightarrow> string \<Rightarrow> string \<Rightarrow> request \<Rightarrow> world \<Rightarrow> tool_result \<times> world" where
  "mcp_respond e exam_code htno rq w =
     (let w1 = w\<lparr>posts := posts w @ [rq]\<rparr>
      in case post e rq of
           Raises x \<Rightarrow> (Tool_failed (RequestException x), w1)
         | Response status text \<Rightarrow>
             if list_ex (\<lambda>indicator. contains text indicator) error_indicators
             then (Tool_error ''No records found for this roll number'', w1)
             else (let pdf_filename = result_filename e htno exam_code;
                       pdf_path = ''static/pdfs/'' @ pdf_filename
                   in case write_pdf e text of
                        Inl x \<Rightarrow> (Tool_failed (RenderException x), w1)
                      | Inr bytes \<Rightarrow>
                          (Tool_success pdf_path,
                           w1\<lparr>files := files w1 @ [(pdf_path, bytes)]\<rparr>)))"

definition get_result_pdf :: "env \<Rightarrow> dataframe \<Rightarrow> string \<Rightarrow> string \<Rightarrow> world \<Rightarrow> tool_result \<times> world" where
  "get_result_pdf e df exam_code htno w =
     (case find_rows df exam_code of
        Inl x \<Rightarrow> (Tool_raised x, w)
      | Inr [] \<Rightarrow> (Tool_error ''Invalid exam code'', w)
      | Inr (r # _) \<Rightarrow>
          (case mcp_request df r htno of
             Inl x \<Rightarrow> (Tool_raised x, w)
           | Inr rq \<Rightarrow> mcp_respond e exam_code htno rq w))"


section \<open>The words of the specification\<close>

text \<open>The header of the CSV file, the columns a catalog has at least.\<close>

definition declared_columns :: "string list" where
  "declared_columns = [''Title'', ''URL'', ''Exam_Date'', ''degree'', ''examCode'', ''etype'',
     ''type'', ''result'', ''grad'', ''Regulation'', ''Is_Supplementary'', ''Exam_Type'', ''Year'',
     ''Semester'']"

definition declared_schema :: "dataframe \<Rightarrow> bool" where
  "declared_schema df = list_all (\<lambda>c. c \<in> set (columns df)) declared_columns"

text \<open>A column of the frame that holds strings (an \<open>object\<close> column): some row has a
  text in it, or the frame has no rows.\<close>

definition str_column :: "dataframe \<Rightarrow> string \<Rightarrow> bool" where
  "str_column df c = (c \<in> set (columns df) \<and> dtype_of df c = Object)"

text \<open>The strings of a column are ASCII text.\<close>

definition ascii_column :: "dataframe \<Rightarrow> string \<Rightarrow> bool" where
  "ascii_column df c =
     list_all (\<lambda>r. case item df r c of PStr t \<Rightarrow> ascii t | _ \<Rightarrow> True) (rows df)"

text \<open>The whole numbers of the frame are numbers a float holds exactly (up to \<open>2^53\<close>),
  so that a \<open>float64\<close> column shows them as they were read.\<close>

definition exact_numbers :: "dataframe \<Rightarrow> bool" where
  "exact_numbers df =
     list_all (\<lambda>r. list_all (\<lambda>c. case r c of Num i \<Rightarrow> \<bar>i\<bar> \<le> 9007199254740992 | _ \<Rightarrow> True)
       (columns df)) (rows df)"

text \<open>
  Reading a whole number in decimal notation, strictly: digits only, a minus sign in front
  of a negative number, no leading zero, no \<open>-0\<close>. Exactly one string reads as a given
  number.
\<close>

definition digit_value :: "char \<Rightarrow> nat option" where
  "digit_value c =
     (let n = (of_char c :: nat) in if 48 \<le> n \<and> n \<le> 57 then Some (n - 48) else None)"

fun read_digits :: "nat \<Rightarrow> string \<Rightarrow> nat option" where
  "read_digits a [] = Some a"
| "read_digits a (c # cs) =
     (case digit_value c of None \<Rightarrow> None | Some d \<Rightarrow> read_digits (10 * a + d) cs)"

definition read_nat :: "string \<Rightarrow> nat option" where
  "read_nat s =
     (if s = [] \<or> (1 < length s \<and> hd s = CHR ''0'') then None else read_digits 0 s)"

definition read_int :: "string \<Rightarrow> int option" where
  "read_int s =
     (if s \<noteq> [] \<and> hd s = CHR ''-''
      then (case read_nat (tl s) of
              None \<Rightarrow> None
            | Some n \<Rightarrow> if n = 0 then None else Some (- int n))
      else map_option int (read_nat s))"

text \<open>A selection applied to the result of a search; an exception stays.\<close>

fun select :: "(row \<Rightarrow> bool) \<Rightarrow> exn + row list \<Rightarrow> exn + row list" where
  "select P (Inl x) = Inl x"
| "select P (Inr rs) = Inr (filter P rs)"

text \<open>The column \<open>examCode\<close> as strings, row by row.\<close>

definition exam_codes :: "dataframe \<Rightarrow> string list" where
  "exam_codes df = map (\<lambda>r. py_str (item df r ''examCode'')) (rows df)"

text \<open>
  The pairs of a reference string, in the order they are written: the text after the first
  \<open>?\<close> is cut at every \<open>&\<close>; a component with an \<open>=\<close> gives the text before its first \<open>=\<close>
  as key and the text after it as value; a component without \<open>=\<close> gives nothing.
\<close>

definition after_question :: "string \<Rightarrow> string" where
  "after_question url = drop 1 (dropWhile (\<lambda>c. c \<noteq> CHR ''?'') url)"

definition reference_pairs :: "string \<Rightarrow> (string \<times> string) list" where
  "reference_pairs url =
     map (\<lambda>p. (takeWhile (\<lambda>c. c \<noteq> CHR ''='') p, drop 1 (dropWhile (\<lambda>c. c \<noteq> CHR ''='') p)))
       (filter (\<lambda>p. CHR ''='' \<in> set p) (split CHR ''&'' (after_question url)))"

text \<open>The mapping the pairs stand for: of two pairs with the same key the later one wins.\<close>

definition reference_params :: "string \<Rightarrow> (string \<rightharpoonup> pvalue)" where
  "reference_params url = map_of (rev (map (\<lambda>(k, v). (k, PStr v)) (reference_pairs url)))"

text \<open>The declared columns of a row, with the string \<open>null\<close> for a missing value.\<close>

definition declared_params :: "dataframe \<Rightarrow> row \<Rightarrow> (string \<rightharpoonup> pvalue)" where
  "declared_params df r =
     [''degree'' \<mapsto> or_null (item df r ''degree''), ''examCode'' \<mapsto> or_null (item df r ''examCode''),
      ''etype'' \<mapsto> or_null (item df r ''etype''), ''type'' \<mapsto> or_null (item df r ''type''),
      ''result'' \<mapsto> or_null (item df r ''result''), ''grad'' \<mapsto> or_null (item df r ''grad'')]"


section \<open>Collaborators for the examples\<close>

text \<open>An endpoint that answers every request with the given status and text, a renderer
  that writes the text as it is, a fixed clock; and a world in which nothing has happened.\<close>

definition env_answering :: "nat \<Rightarrow> string \<Rightarrow> env" where
  "env_answering status text =
     \<lparr>post = (\<lambda>rq. Response status text), write_pdf = (\<lambda>html. Inr html),
      timestamp = ''20250808_101500'', pdf_dir = ''/srv/static/pdfs''\<rparr>"

definition new_world :: world where
  "new_world = \<lparr>posts = [], files = []\<rparr>"

text \<open>The exam codes of the rows a search returns.\<close>

fun codes_of :: "exn + row list \<Rightarrow> exn + cell list" where
  "codes_of (Inl x) = Inl x"
| "codes_of (Inr rs) = Inr (map (\<lambda>r. r ''examCode'') rs)"


section \<open>The sample data of the source\<close>

text \<open>A row of a file with the declared header, from its fields in the order of the
  header.\<close>

definition csv_row :: "cell list \<Rightarrow> row" where
  "csv_row cells c = (case map_of (zip declared_columns cells) c of Some x \<Rightarrow> x | None \<Rightarrow> NaN)"

text \<open>Three rows of the CSV text the source writes when the file is missing
  (exam codes 1866, 1868 and 1871).\<close>

definition row_1866 :: row where
  "row_1866 = csv_row
     [Str ''B.Tech IV Year I Semester (R18) Supplementary JUNE-2025 Examinations Results'',
      Str ''http://results.jntuh.ac.in/jsp/SearchResult.jsp?degree=btech&examCode=1866&etype=r17&type=intgrade'',
      Str ''08-AUGUST-2025'', Str ''btech'', Num 1866, Str ''r17'', Str ''intgrade'', NaN, NaN,
      Str ''R18'', Str ''Yes'', Str ''Supplementary'', Str ''IV'', Str ''I'']"

definition row_1868 :: row where
  "row_1868 = csv_row
     [Str ''B.Tech IV Year I Semester (R15) Supplementary JUNE-2025 Examinations Results'',
      Str ''http://results.jntuh.ac.in/jsp/SearchResult.jsp?degree=btech&examCode=1868'',
      Str ''08-AUGUST-2025'', Str ''btech'', Num 1868, NaN, NaN, NaN, NaN,
      Str ''R15'', Str ''Yes'', Str ''Supplementary'', Str ''IV'', Str ''I'']"

definition row_1871 :: row where
  "row_1871 = csv_row
     [Str ''RC/RV B.Tech III Year II Semester (R18) Supplementary Results'',
      Str ''http://results.jntuh.ac.in/jsp/SearchResult.jsp?degree=btech&examCode=1871&etype=r18&result=gradercrv&type=rcrvintgrade'',
      Str ''20-MAR-2025'', Str ''btech'', Num 1871, Str ''r18'', Str ''rcrvintgrade'',
      Str ''gradercrv'', NaN, Str ''R18'', Str ''Yes'', Str ''Supplementary'', Str ''III'', Str ''II'']"

definition frame :: "row list \<Rightarrow> dataframe" where
  "frame rs = \<lparr>columns = declared_columns, rows = rs\<rparr>"

definition sample_df :: dataframe where
  "sample_df = frame [row_1866, row_1868, row_1871]"


section \<open>Properties of the filters\<close>

subsection \<open>Auxiliary facts\<close>

lemma startswith_prefix: "startswith s p \<longleftrightarrow> prefix p s"
  by (induction s p rule: startswith.induct) auto

lemma contains_sublist: "contains s p \<longleftrightarrow> sublist p s"
  by (induction s) (auto simp: startswith_prefix sublist_Cons_right)

text \<open>Every step keeps or drops a row on its own, and raises or not whatever the rows
  are; so a selection made before a step can as well be made after it.\<close>

lemma where_select:
  "where_str cat c test (filter Q rs) = select Q (where_str cat c test rs)"
  "where_col cat c test (filter Q rs) = select Q (where_col cat c test rs)"
  by (simp_all add: where_str_def where_col_def str_accessor_def getitem_def conj_commute)

lemma steps_select:
  "app_degree_step cat v (filter Q rs) = select Q (app_degree_step cat v rs)"
  "app_year_step cat v (filter Q rs) = select Q (app_year_step cat v rs)"
  "app_semester_step cat v (filter Q rs) = select Q (app_semester_step cat v rs)"
  "app_regulation_step cat v (filter Q rs) = select Q (app_regulation_step cat v rs)"
  "app_exam_type_step cat v (filter Q rs) = select Q (app_exam_type_step cat v rs)"
  "app_rc_rv_step cat v (filter Q rs) = select Q (app_rc_rv_step cat v rs)"
  "mcp_degree_step cat v (filter Q rs) = select Q (mcp_degree_step cat v rs)"
  "mcp_year_step cat v (filter Q rs) = select Q (mcp_year_step cat v rs)"
  "mcp_semester_step cat v (filter Q rs) = select Q (mcp_semester_step cat v rs)"
  "mcp_regulation_step cat v (filter Q rs) = select Q (mcp_regulation_step cat v rs)"
  "mcp_exam_type_step cat v (filter Q rs) = select Q (mcp_exam_type_step cat v rs)"
  "mcp_rc_rv_step cat v (filter Q rs) = select Q (mcp_rc_rv_step cat v rs)"
  by (simp_all add: app_degree_step_def app_year_step_def app_semester_step_def
      app_regulation_step_def app_exam_type_step_def app_rc_rv_step_def mcp_degree_step_def
      mcp_year_step_def mcp_semester_step_def mcp_regulation_step_def mcp_exam_type_step_def
      mcp_rc_rv_step_def where_select)

lemma when_set_select:
  assumes "\<And>v rs. step v (filter Q rs) = select Q (step v rs)"
  shows "when_set x step (filter Q rs) = select Q (when_set x step rs)"
  using assms by (cases x) auto

lemma when_set_steps_select:
  "when_set x (app_degree_step cat) (filter Q rs) = select Q (when_set x (app_degree_step cat) rs)"
  "when_set x (app_year_step cat) (filter Q rs) = select Q (when_set x (app_year_step cat) rs)"
  "when_set x (app_semester_step cat) (filter Q rs) = select Q (when_set x (app_semester_step cat) rs)"
  "when_set x (app_regulation_step cat) (filter Q rs) = select Q (when_set x (app_regulation_step cat) rs)"
  "when_set x (app_exam_type_step cat) (filter Q rs) = select Q (when_set x (app_exam_type_step cat) rs)"
  "when_set x (app_rc_rv_step cat) (filter Q rs) = select Q (when_set x (app_rc_rv_step cat) rs)"
  "when_set x (mcp_degree_step cat) (filter Q rs) = select Q (when_set x (mcp_degree_step cat) rs)"
  "when_set x (mcp_year_step cat) (filter Q rs) = select Q (when_set x (mcp_year_step cat) rs)"
  "when_set x (mcp_semester_step cat) (filter Q rs) = select Q (when_set x (mcp_semester_step cat) rs)"
  "when_set x (mcp_regulation_step cat) (filter Q rs) = select Q (when_set x (mcp_regulation_step cat) rs)"
  "when_set x (mcp_exam_type_step cat) (filter Q rs) = select Q (when_set x (mcp_exam_type_step cat) rs)"
  "when_set x (mcp_rc_rv_step cat) (filter Q rs) = select Q (when_set x (mcp_rc_rv_step cat) rs)"
  by (rule when_set_select, rule steps_select)+

lemma then_do_select:
  "then_do (select Q res) F = then_do res (\<lambda>rs. F (filter Q rs))"
  "then_do res (\<lambda>rs. select Q (U rs)) = select Q (then_do res U)"
  "then_do res (\<lambda>rs. Inr (filter Q rs)) = select Q (then_do res Inr)"
  by (cases res; simp)+

lemmas select_out = when_set_steps_select then_do_select

subsection \<open>No predicate set\<close>

text \<open>
  C4. With no predicate set, \<open>filter_results\<close> of \<open>app.py\<close> and of \<open>mcp.py\<close> both return
  the whole catalog, rows in catalog order (and do not raise).
\<close>

theorem search_without_predicates:
  "app_filter_results no_filters df = Inr (rows df)
   \<and> mcp_filter_results no_filters df = Inr (rows df)"
  by (simp add: app_filter_results_def mcp_filter_results_def no_filters_def)

subsection \<open>The empty string as a value\<close>

lemma app_empty_string:
  "app_filter_results (f\<lparr>degree_type := Some ''''\<rparr>) df = app_filter_results (f\<lparr>degree_type := None\<rparr>) df"
  "app_filter_results (f\<lparr>year := Some ''''\<rparr>) df = app_filter_results (f\<lparr>year := None\<rparr>) df"
  "app_filter_results (f\<lparr>semester := Some ''''\<rparr>) df = app_filter_results (f\<lparr>semester := None\<rparr>) df"
  "app_filter_results (f\<lparr>regulation := Some ''''\<rparr>) df = app_filter_results (f\<lparr>regulation := None\<rparr>) df"
  "app_filter_results (f\<lparr>exam_type := Some ''''\<rparr>) df = app_filter_results (f\<lparr>exam_type := None\<rparr>) df"
  "app_filter_results (f\<lparr>rc_rv := Some ''''\<rparr>) df = app_filter_results (f\<lparr>rc_rv := None\<rparr>) df"
  by (simp_all add: app_filter_results_def)

lemma mcp_empty_string:
  "mcp_filter_results (f\<lparr>degree_type := Some ''''\<rparr>) df = mcp_filter_results (f\<lparr>degree_type := None\<rparr>) df"
  "mcp_filter_results (f\<lparr>year := Some ''''\<rparr>) df = mcp_filter_results (f\<lparr>year := None\<rparr>) df"
  "mcp_filter_results (f\<lparr>semester := Some ''''\<rparr>) df = mcp_filter_results (f\<lparr>semester := None\<rparr>) df"
  "mcp_filter_results (f\<lparr>regulation := Some ''''\<rparr>) df = mcp_filter_results (f\<lparr>regulation := None\<rparr>) df"
  "mcp_filter_results (f\<lparr>exam_type := Some ''''\<rparr>) df = mcp_filter_results (f\<lparr>exam_type := None\<rparr>) df"
  "mcp_filter_results (f\<lparr>rc_rv := Some ''''\<rparr>) df = mcp_filter_results (f\<lparr>rc_rv := None\<rparr>) df"
  by (simp_all add: mcp_filter_results_def)

text \<open>
  C10. For each of the six facets, in \<open>app.py\<close> and in \<open>mcp.py\<close>, the empty string as the
  facet's value gives the same result as the facet being absent, whatever the other facets
  are: a step runs only on a value that is present and not empty.
\<close>

theorem empty_string_imposes_no_constraint:
  "(app_filter_results (f\<lparr>degree_type := Some ''''\<rparr>) df = app_filter_results (f\<lparr>degree_type := None\<rparr>) df
    \<and> app_filter_results (f\<lparr>year := Some ''''\<rparr>) df = app_filter_results (f\<lparr>year := None\<rparr>) df
    \<and> app_filter_results (f\<lparr>semester := Some ''''\<rparr>) df = app_filter_results (f\<lparr>semester := None\<rparr>) df
    \<and> app_filter_results (f\<lparr>regulation := Some ''''\<rparr>) df = app_filter_results (f\<lparr>regulation := None\<rparr>) df
    \<and> app_filter_results (f\<lparr>exam_type := Some ''''\<rparr>) df = app_filter_results (f\<lparr>exam_type := None\<rparr>) df
    \<and> app_filter_results (f\<lparr>rc_rv := Some ''''\<rparr>) df = app_filter_results (f\<lparr>rc_rv := None\<rparr>) df)
   \<and> (mcp_filter_results (f\<lparr>degree_type := Some ''''\<rparr>) df = mcp_filter_results (f\<lparr>degree_type := None\<rparr>) df
    \<and> mcp_filter_results (f\<lparr>year := Some ''''\<rparr>) df = mcp_filter_results (f\<lparr>year := None\<rparr>) df
    \<and> mcp_filter_results (f\<lparr>semester := Some ''''\<rparr>) df = mcp_filter_results (f\<lparr>semester := None\<rparr>) df
    \<and> mcp_filter_results (f\<lparr>regulation := Some ''''\<rparr>) df = mcp_filter_results (f\<lparr>regulation := None\<rparr>) df
    \<and> mcp_filter_results (f\<lparr>exam_type := Some ''''\<rparr>) df = mcp_filter_results (f\<lparr>exam_type := None\<rparr>) df
    \<and> mcp_filter_results (f\<lparr>rc_rv := Some ''''\<rparr>) df = mcp_filter_results (f\<lparr>rc_rv := None\<rparr>) df)"
  by (intro conjI app_empty_string mcp_empty_string)

subsection \<open>What each step selects\<close>

lemma lower_literals:
  "lower ''supplementary'' = ''supplementary''"
  "lower ''RC/RV'' = ''rc/rv''"
  "lower ''RCRV'' = ''rcrv''"
  by code_simp+

lemma str_contains_sublist:
  "str_contains x p \<longleftrightarrow> (\<exists>t. x = PStr t \<and> sublist (lower p) (lower t))"
  by (cases x) (simp_all add: icontains_def contains_sublist)

lemma contains_rcrv_sublist:
  "contains_rcrv x \<longleftrightarrow>
     (\<exists>t. x = PStr t \<and> (sublist ''rc/rv'' (lower t) \<or> sublist ''rcrv'' (lower t)))"
  by (auto simp: contains_rcrv_def str_contains_sublist lower_literals)

lemma eq_str_lower: "eq_str (str_lower x) s \<longleftrightarrow> (\<exists>t. x = PStr t \<and> lower t = s)"
  by (cases x) (auto simp: eq_str_def)

lemma isin_lower:
  "isin (str_lower x) [a, b] \<longleftrightarrow> (\<exists>t. x = PStr t \<and> (lower t = a \<or> lower t = b))"
  by (cases x) auto

lemma where_str_column:
  "str_column cat c \<Longrightarrow> where_str cat c test rs = Inr (filter (\<lambda>r. test (item cat r c)) rs)"
  by (simp add: where_str_def str_accessor_def getitem_def str_column_def)

lemma where_col_column:
  "c \<in> set (columns cat) \<Longrightarrow> where_col cat c test rs = Inr (filter (\<lambda>r. test (item cat r c)) rs)"
  by (simp add: where_col_def getitem_def)

lemma app_degree_facet:
  assumes "str_column df ''degree''"
  shows
  "app_filter_results (f\<lparr>degree_type := Some ''BTech''\<rparr>) df =
     select (\<lambda>r. \<exists>t. item df r ''degree'' = PStr t \<and> (lower t = ''btech'' \<or> lower t = ''b.e''))
       (app_filter_results (f\<lparr>degree_type := None\<rparr>) df)"
  "app_filter_results (f\<lparr>degree_type := Some ''B.Pharmacy''\<rparr>) df =
     select (\<lambda>r. \<exists>t. item df r ''degree'' = PStr t \<and> lower t = ''bpharmacy'')
       (app_filter_results (f\<lparr>degree_type := None\<rparr>) df)"
  "app_filter_results (f\<lparr>degree_type := Some ''MTech''\<rparr>) df =
     select (\<lambda>r. \<exists>t. item df r ''degree'' = PStr t \<and> lower t = ''mtech'')
       (app_filter_results (f\<lparr>degree_type := None\<rparr>) df)"
  "app_filter_results (f\<lparr>degree_type := Some ''M.Pharmacy''\<rparr>) df =
     select (\<lambda>r. \<exists>t. item df r ''degree'' = PStr t \<and> lower t = ''mpharmacy'')
       (app_filter_results (f\<lparr>degree_type := None\<rparr>) df)"
  using assms
  by (simp_all add: app_filter_results_def app_degree_step_def where_str_column eq_str_lower
      isin_lower select_out)

lemma mcp_degree_facet:
  assumes "''degree'' \<in> set (columns df)" and "v \<noteq> []"
  shows "mcp_filter_results (f\<lparr>degree_type := Some v\<rparr>) df =
     select (\<lambda>r. item df r ''degree'' = PStr (lower v))
       (mcp_filter_results (f\<lparr>degree_type := None\<rparr>) df)"
  using assms
  by (simp add: mcp_filter_results_def mcp_degree_step_def where_col_column eq_str_def select_out)

lemma app_year_facet:
  assumes "str_column df ''Year''" and "v \<noteq> []"
  shows "app_filter_results (f\<lparr>year := Some v\<rparr>) df =
     select (\<lambda>r. \<exists>t. item df r ''Year'' = PStr t \<and> lower t = lower v)
       (app_filter_results (f\<lparr>year := None\<rparr>) df)"
  using assms
  by (simp add: app_filter_results_def app_year_step_def where_str_column eq_str_lower select_out)

lemma app_semester_facet:
  assumes "str_column df ''Semester''" and "v \<noteq> []"
  shows "app_filter_results (f\<lparr>semester := Some v\<rparr>) df =
     select (\<lambda>r. \<exists>t. item df r ''Semester'' = PStr t \<and> lower t = lower v)
       (app_filter_results (f\<lparr>semester := None\<rparr>) df)"
  using assms
  by (simp add: app_filter_results_def app_semester_step_def where_str_column eq_str_lower
      select_out)

lemma app_regulation_facet:
  assumes "str_column df ''Regulation''" and "v \<noteq> []"
  shows "app_filter_results (f\<lparr>regulation := Some v\<rparr>) df =
     select (\<lambda>r. \<exists>t. item df r ''Regulation'' = PStr t \<and> lower t = lower v)
       (app_filter_results (f\<lparr>regulation := None\<rparr>) df)"
  using assms
  by (simp add: app_filter_results_def app_regulation_step_def where_str_column eq_str_lower
      select_out)

lemma mcp_year_facet:
  assumes "''Year'' \<in> set (columns df)" and "v \<noteq> []"
  shows "mcp_filter_results (f\<lparr>year := Some v\<rparr>) df =
     select (\<lambda>r. item df r ''Year'' = PStr v) (mcp_filter_results (f\<lparr>year := None\<rparr>) df)"
  using assms
  by (simp add: mcp_filter_results_def mcp_year_step_def where_col_column eq_str_def select_out)

lemma mcp_semester_facet:
  assumes "''Semester'' \<in> set (columns df)" and "v \<noteq> []"
  shows "mcp_filter_results (f\<lparr>semester := Some v\<rparr>) df =
     select (\<lambda>r. item df r ''Semester'' = PStr v)
       (mcp_filter_results (f\<lparr>semester := None\<rparr>) df)"
  using assms
  by (simp add: mcp_filter_results_def mcp_semester_step_def where_col_column eq_str_def
      select_out)

lemma mcp_regulation_facet:
  assumes "''Regulation'' \<in> set (columns df)" and "v \<noteq> []"
  shows "mcp_filter_results (f\<lparr>regulation := Some v\<rparr>) df =
     select (\<lambda>r. item df r ''Regulation'' = PStr (upper v))
       (mcp_filter_results (f\<lparr>regulation := None\<rparr>) df)"
  using assms
  by (simp add: mcp_filter_results_def mcp_regulation_step_def where_col_column eq_str_def
      select_out)

lemma app_exam_type_facet:
  assumes "str_column df ''Exam_Type''"
  shows
  "app_filter_results (f\<lparr>exam_type := Some ''Supplementary''\<rparr>) df =
     select (\<lambda>r. \<exists>t. item df r ''Exam_Type'' = PStr t \<and> sublist ''supplementary'' (lower t))
       (app_filter_results (f\<lparr>exam_type := None\<rparr>) df)"
  "app_filter_results (f\<lparr>exam_type := Some ''Regular''\<rparr>) df =
     select (\<lambda>r. \<exists>t. item df r ''Exam_Type'' = PStr t \<and> lower t = ''regular'')
       (app_filter_results (f\<lparr>exam_type := None\<rparr>) df)"
  using assms
  by (simp_all add: app_filter_results_def app_exam_type_step_def where_str_column eq_str_lower
      str_contains_sublist lower_literals select_out)

lemma mcp_exam_type_facet:
  assumes "str_column df ''Exam_Type''"
  shows
  "mcp_filter_results (f\<lparr>exam_type := Some ''Supplementary''\<rparr>) df =
     select (\<lambda>r. \<exists>t. item df r ''Exam_Type'' = PStr t \<and> sublist ''supplementary'' (lower t))
       (mcp_filter_results (f\<lparr>exam_type := None\<rparr>) df)"
  "mcp_filter_results (f\<lparr>exam_type := Some ''Regular''\<rparr>) df =
     select (\<lambda>r. item df r ''Exam_Type'' = PStr ''Regular'')
       (mcp_filter_results (f\<lparr>exam_type := None\<rparr>) df)"
  using assms
  by (simp_all add: mcp_filter_results_def mcp_exam_type_step_def where_str_column
      where_col_column [of "''Exam_Type''"] str_column_def eq_str_def
      str_contains_sublist lower_literals select_out)

lemma app_rc_rv_facet:
  "str_column df ''Title'' \<Longrightarrow> app_filter_results (f\<lparr>rc_rv := Some ''Yes''\<rparr>) df =
     select (\<lambda>r. \<exists>t. item df r ''Title'' = PStr t
                \<and> (sublist ''rc/rv'' (lower t) \<or> sublist ''rcrv'' (lower t)))
       (app_filter_results (f\<lparr>rc_rv := None\<rparr>) df)"
  "v \<noteq> ''Yes'' \<Longrightarrow>
     app_filter_results (f\<lparr>rc_rv := Some v\<rparr>) df = app_filter_results (f\<lparr>rc_rv := None\<rparr>) df"
  by (simp_all add: app_filter_results_def app_rc_rv_step_def where_str_column
      contains_rcrv_sublist select_out cong: if_cong)

lemma mcp_rc_rv_facet:
  "str_column df ''Title'' \<Longrightarrow> mcp_filter_results (f\<lparr>rc_rv := Some ''Yes''\<rparr>) df =
     select (\<lambda>r. \<exists>t. item df r ''Title'' = PStr t
                \<and> (sublist ''rc/rv'' (lower t) \<or> sublist ''rcrv'' (lower t)))
       (mcp_filter_results (f\<lparr>rc_rv := None\<rparr>) df)"
  "str_column df ''Title'' \<Longrightarrow> mcp_filter_results (f\<lparr>rc_rv := Some ''No''\<rparr>) df =
     select (\<lambda>r. \<not> (\<exists>t. item df r ''Title'' = PStr t
                \<and> (sublist ''rc/rv'' (lower t) \<or> sublist ''rcrv'' (lower t))))
       (mcp_filter_results (f\<lparr>rc_rv := None\<rparr>) df)"
  "v \<noteq> ''Yes'' \<Longrightarrow> v \<noteq> ''No'' \<Longrightarrow>
     mcp_filter_results (f\<lparr>rc_rv := Some v\<rparr>) df = mcp_filter_results (f\<lparr>rc_rv := None\<rparr>) df"
  by (simp_all add: mcp_filter_results_def mcp_rc_rv_step_def where_str_column
      contains_rcrv_sublist select_out cong: if_cong)

subsection \<open>The degree category\<close>

text \<open>
  C5, as the code has it. Let \<open>degree\<close> be a column of strings. In \<open>app.py\<close> the category
  \<open>BTech\<close> keeps, among the rows the other facets admit, exactly the rows whose degree,
  lower-cased, is \<open>btech\<close> or \<open>b.e\<close> (so a row stored as \<open>b.e\<close> in any letter case is
  kept), and \<open>B.Pharmacy\<close>, \<open>MTech\<close>, \<open>M.Pharmacy\<close> keep exactly the rows whose degree,
  lower-cased, is \<open>bpharmacy\<close>, \<open>mtech\<close>, \<open>mpharmacy\<close>. In \<open>mcp.py\<close> there is no alias
  set: a value that is not empty (taken as ASCII text) keeps exactly the rows whose stored
  degree is equal to the lower-cased value.
\<close>

theorem degree_category_predicate:
  "(str_column df ''degree'' \<longrightarrow>
      app_filter_results (f\<lparr>degree_type := Some ''BTech''\<rparr>) df =
        select (\<lambda>r. \<exists>t. item df r ''degree'' = PStr t \<and> (lower t = ''btech'' \<or> lower t = ''b.e''))
          (app_filter_results (f\<lparr>degree_type := None\<rparr>) df)
      \<and> app_filter_results (f\<lparr>degree_type := Some ''B.Pharmacy''\<rparr>) df =
        select (\<lambda>r. \<exists>t. item df r ''degree'' = PStr t \<and> lower t = ''bpharmacy'')
          (app_filter_results (f\<lparr>degree_type := None\<rparr>) df)
      \<and> app_filter_results (f\<lparr>degree_type := Some ''MTech''\<rparr>) df =
        select (\<lambda>r. \<exists>t. item df r ''degree'' = PStr t \<and> lower t = ''mtech'')
          (app_filter_results (f\<lparr>degree_type := None\<rparr>) df)
      \<and> app_filter_results (f\<lparr>degree_type := Some ''M.Pharmacy''\<rparr>) df =
        select (\<lambda>r. \<exists>t. item df r ''degree'' = PStr t \<and> lower t = ''mpharmacy'')
          (app_filter_results (f\<lparr>degree_type := None\<rparr>) df))
   \<and> (''degree'' \<in> set (columns df) \<and> v \<noteq> [] \<and> ascii v \<longrightarrow>
        mcp_filter_results (f\<lparr>degree_type := Some v\<rparr>) df =
          select (\<lambda>r. item df r ''degree'' = PStr (lower v))
            (mcp_filter_results (f\<lparr>degree_type := None\<rparr>) df))"
  by (intro conjI impI app_degree_facet mcp_degree_facet) simp_all

text \<open>At the value \<open>BTech\<close> and a catalog of two rows stored as \<open>B.E\<close> and \<open>btech\<close>:
  \<open>app.py\<close> keeps both, \<open>mcp.py\<close> keeps the one stored as \<open>btech\<close>.\<close>

theorem degree_category_predicate_witness:
  "codes_of (app_filter_results (no_filters\<lparr>degree_type := Some ''BTech''\<rparr>)
       (frame [row_1866(''degree'' := Str ''B.E''), row_1868]))
     = codes_of (select (\<lambda>r. \<exists>t. item (frame [row_1866(''degree'' := Str ''B.E''), row_1868]) r ''degree'' = PStr t
            \<and> (lower t = ''btech'' \<or> lower t = ''b.e''))
          (app_filter_results (no_filters\<lparr>degree_type := None\<rparr>)
             (frame [row_1866(''degree'' := Str ''B.E''), row_1868])))
   \<and> codes_of (app_filter_results (no_filters\<lparr>degree_type := Some ''BTech''\<rparr>)
       (frame [row_1866(''degree'' := Str ''B.E''), row_1868])) = Inr [Num 1866, Num 1868]
   \<and> mcp_filter_results (no_filters\<lparr>degree_type := Some ''BTech''\<rparr>)
       (frame [row_1866(''degree'' := Str ''B.E''), row_1868])
     = select (\<lambda>r. item (frame [row_1866(''degree'' := Str ''B.E''), row_1868]) r ''degree''
            = PStr (lower ''BTech''))
         (mcp_filter_results (no_filters\<lparr>degree_type := None\<rparr>)
            (frame [row_1866(''degree'' := Str ''B.E''), row_1868]))
   \<and> codes_of (mcp_filter_results (no_filters\<lparr>degree_type := Some ''BTech''\<rparr>)
       (frame [row_1866(''degree'' := Str ''B.E''), row_1868])) = Inr [Num 1868]"
proof -
  let ?df = "frame [row_1866(''degree'' := Str ''B.E''), row_1868]"
  have s: "str_column ?df ''degree''"
    by code_simp
  have h: "''degree'' \<in> set (columns ?df) \<and> ''BTech'' \<noteq> [] \<and> ascii ''BTech''"
    by code_simp
  note t = degree_category_predicate [of ?df no_filters "''BTech''"]
  note a = t [THEN conjunct1, THEN mp, OF s, THEN conjunct1]
  note m = t [THEN conjunct2, THEN mp, OF h]
  have a': "codes_of (app_filter_results (no_filters\<lparr>degree_type := Some ''BTech''\<rparr>) ?df)
      = Inr [Num 1866, Num 1868]"
    by code_simp
  have m': "codes_of (mcp_filter_results (no_filters\<lparr>degree_type := Some ''BTech''\<rparr>) ?df)
      = Inr [Num 1868]"
    by code_simp
  show ?thesis
    by (intro conjI arg_cong [where f = codes_of] a m a' m')
qed

text \<open>The claim as written fails in \<open>mcp.py\<close>: a row stored with the degree \<open>b.e\<close> is
  not matched by the category \<open>BTech\<close>.\<close>

theorem degree_alias_counterexample:
  "item (frame [row_1866(''degree'' := Str ''b.e'')]) (row_1866(''degree'' := Str ''b.e'')) ''degree''
     = PStr ''b.e''
   \<and> codes_of (mcp_filter_results (no_filters\<lparr>degree_type := Some ''BTech''\<rparr>)
       (frame [row_1866(''degree'' := Str ''b.e'')])) = Inr []"
  by code_simp

subsection \<open>Year, semester and regulation\<close>

text \<open>
  C6, as the code has it. Let the value of a year, semester or regulation predicate be
  ASCII text and not empty. In \<open>app.py\<close>, when the column is a column of (ASCII) strings,
  the predicate keeps, among the rows the other facets admit, exactly the rows whose stored
  token is equal to the value up to letter case (both lower-cased). In \<open>mcp.py\<close> the year
  and semester predicates keep exactly the rows whose stored token is equal to the value as
  written, and the regulation predicate keeps exactly the rows whose stored token is equal
  to the upper-cased value.
\<close>

theorem year_semester_regulation_predicates:
  assumes "v \<noteq> []" and "ascii v"
  shows
  "((str_column df ''Year'' \<and> ascii_column df ''Year'' \<longrightarrow>
      app_filter_results (f\<lparr>year := Some v\<rparr>) df =
        select (\<lambda>r. \<exists>t. item df r ''Year'' = PStr t \<and> lower t = lower v)
          (app_filter_results (f\<lparr>year := None\<rparr>) df))
    \<and> (str_column df ''Semester'' \<and> ascii_column df ''Semester'' \<longrightarrow>
      app_filter_results (f\<lparr>semester := Some v\<rparr>) df =
        select (\<lambda>r. \<exists>t. item df r ''Semester'' = PStr t \<and> lower t = lower v)
          (app_filter_results (f\<lparr>semester := None\<rparr>) df))
    \<and> (str_column df ''Regulation'' \<and> ascii_column df ''Regulation'' \<longrightarrow>
      app_filter_results (f\<lparr>regulation := Some v\<rparr>) df =
        select (\<lambda>r. \<exists>t. item df r ''Regulation'' = PStr t \<and> lower t = lower v)
          (app_filter_results (f\<lparr>regulation := None\<rparr>) df)))
   \<and> ((''Year'' \<in> set (columns df) \<longrightarrow>
      mcp_filter_results (f\<lparr>year := Some v\<rparr>) df =
        select (\<lambda>r. item df r ''Year'' = PStr v) (mcp_filter_results (f\<lparr>year := None\<rparr>) df))
    \<and> (''Semester'' \<in> set (columns df) \<longrightarrow>
      mcp_filter_results (f\<lparr>semester := Some v\<rparr>) df =
        select (\<lambda>r. item df r ''Semester'' = PStr v)
          (mcp_filter_results (f\<lparr>semester := None\<rparr>) df))
    \<and> (''Regulation'' \<in> set (columns df) \<longrightarrow>
      mcp_filter_results (f\<lparr>regulation := Some v\<rparr>) df =
        select (\<lambda>r. item df r ''Regulation'' = PStr (upper v))
          (mcp_filter_results (f\<lparr>regulation := None\<rparr>) df)))"
  using assms(1)
  by (intro conjI impI app_year_facet app_semester_facet app_regulation_facet
      mcp_year_facet mcp_semester_facet mcp_regulation_facet) simp_all

text \<open>On the sample rows: the regulation \<open>r18\<close>, two rows being stored as \<open>R18\<close>; the
  year \<open>iv\<close>, two rows being stored as \<open>IV\<close>; the semester \<open>ii\<close>, one row being stored
  as \<open>II\<close>.\<close>

theorem year_semester_regulation_predicates_witness:
  "app_filter_results (no_filters\<lparr>regulation := Some ''r18''\<rparr>) sample_df =
       select (\<lambda>r. \<exists>t. item sample_df r ''Regulation'' = PStr t \<and> lower t = lower ''r18'')
         (app_filter_results (no_filters\<lparr>regulation := None\<rparr>) sample_df)
   \<and> mcp_filter_results (no_filters\<lparr>regulation := Some ''r18''\<rparr>) sample_df =
       select (\<lambda>r. item sample_df r ''Regulation'' = PStr (upper ''r18''))
         (mcp_filter_results (no_filters\<lparr>regulation := None\<rparr>) sample_df)
   \<and> codes_of (app_filter_results (no_filters\<lparr>regulation := Some ''r18''\<rparr>) sample_df) =
       Inr [Num 1866, Num 1871]
   \<and> codes_of (mcp_filter_results (no_filters\<lparr>regulation := Some ''r18''\<rparr>) sample_df) =
       Inr [Num 1866, Num 1871]
   \<and> app_filter_results (no_filters\<lparr>year := Some ''iv''\<rparr>) sample_df =
       select (\<lambda>r. \<exists>t. item sample_df r ''Year'' = PStr t \<and> lower t = lower ''iv'')
         (app_filter_results (no_filters\<lparr>year := None\<rparr>) sample_df)
   \<and> mcp_filter_results (no_filters\<lparr>year := Some ''iv''\<rparr>) sample_df =
       select (\<lambda>r. item sample_df r ''Year'' = PStr ''iv'')
         (mcp_filter_results (no_filters\<lparr>year := None\<rparr>) sample_df)
   \<and> codes_of (app_filter_results (no_filters\<lparr>year := Some ''iv''\<rparr>) sample_df) =
       Inr [Num 1866, Num 1868]
   \<and> app_filter_results (no_filters\<lparr>semester := Some ''ii''\<rparr>) sample_df =
       select (\<lambda>r. \<exists>t. item sample_df r ''Semester'' = PStr t \<and> lower t = lower ''ii'')
         (app_filter_results (no_filters\<lparr>semester := None\<rparr>) sample_df)
   \<and> mcp_filter_results (no_filters\<lparr>semester := Some ''ii''\<rparr>) sample_df =
       select (\<lambda>r. item sample_df r ''Semester'' = PStr ''ii'')
         (mcp_filter_results (no_filters\<lparr>semester := None\<rparr>) sample_df)
   \<and> codes_of (app_filter_results (no_filters\<lparr>semester := Some ''ii''\<rparr>) sample_df) =
       Inr [Num 1871]"
proof -
  have h: "''r18'' \<noteq> []" "ascii ''r18''"
    and hy: "''iv'' \<noteq> []" "ascii ''iv''"
    and hs: "''ii'' \<noteq> []" "ascii ''ii''"
    by code_simp+
  have c: "str_column sample_df ''Regulation'' \<and> ascii_column sample_df ''Regulation''"
    and cy: "str_column sample_df ''Year'' \<and> ascii_column sample_df ''Year''"
    and cs: "str_column sample_df ''Semester'' \<and> ascii_column sample_df ''Semester''"
    by code_simp+
  have c': "''Regulation'' \<in> set (columns sample_df)"
    and cy': "''Year'' \<in> set (columns sample_df)"
    and cs': "''Semester'' \<in> set (columns sample_df)"
    by code_simp+
  note t = year_semester_regulation_predicates [OF h, of sample_df no_filters]
  note a = t [THEN conjunct1, THEN conjunct2, THEN conjunct2, THEN mp, OF c]
  note m = t [THEN conjunct2, THEN conjunct2, THEN conjunct2, THEN mp, OF c']
  note ty = year_semester_regulation_predicates [OF hy, of sample_df no_filters]
  note ay = ty [THEN conjunct1, THEN conjunct1, THEN mp, OF cy]
  note my = ty [THEN conjunct2, THEN conjunct1, THEN mp, OF cy']
  note ts = year_semester_regulation_predicates [OF hs, of sample_df no_filters]
  note as = ts [THEN conjunct1, THEN conjunct2, THEN conjunct1, THEN mp, OF cs]
  note ms = ts [THEN conjunct2, THEN conjunct2, THEN conjunct1, THEN mp, OF cs']
  have a': "codes_of (app_filter_results (no_filters\<lparr>regulation := Some ''r18''\<rparr>) sample_df) =
       Inr [Num 1866, Num 1871]"
    by code_simp
  have m': "codes_of (mcp_filter_results (no_filters\<lparr>regulation := Some ''r18''\<rparr>) sample_df) =
       Inr [Num 1866, Num 1871]"
    by code_simp
  have ay': "codes_of (app_filter_results (no_filters\<lparr>year := Some ''iv''\<rparr>) sample_df) =
       Inr [Num 1866, Num 1868]"
    by code_simp
  have as': "codes_of (app_filter_results (no_filters\<lparr>semester := Some ''ii''\<rparr>) sample_df) =
       Inr [Num 1871]"
    by code_simp
  show ?thesis
    by (intro conjI a m a' m' ay my ay' as ms as')
qed

text \<open>The claim as written fails in \<open>mcp.py\<close>: the year \<open>iv\<close> is equal to the stored
  \<open>IV\<close> up to letter case, and the row is not matched.\<close>

theorem year_case_counterexample:
  "lower ''iv'' = lower ''IV'' \<and> item sample_df row_1866 ''Year'' = PStr ''IV''
   \<and> codes_of (mcp_filter_results (no_filters\<lparr>year := Some ''iv''\<rparr>) sample_df) = Inr []"
  by code_simp

subsection \<open>The exam type\<close>

lemma supplementary_labels:
  "sublist ''supplementary'' (lower ''Supplementary'')"
  "sublist ''supplementary'' (lower ''RC/RV Supplementary'')"
  unfolding contains_sublist [symmetric] by code_simp+

text \<open>
  C7. Let \<open>Exam_Type\<close> be a column of strings. In \<open>app.py\<close> and in \<open>mcp.py\<close> the exam type
  \<open>Supplementary\<close> keeps, among the rows the other facets admit, exactly the rows whose
  \<open>Exam_Type\<close> is present and contains \<open>supplementary\<close> somewhere, letter case put aside;
  so a row whose field is \<open>Supplementary\<close> or \<open>RC/RV Supplementary\<close> is kept. The exam type
  \<open>Regular\<close> keeps a row by equality of the whole field only: with \<open>regular\<close> after
  lower-casing in \<open>app.py\<close>, with \<open>Regular\<close> in \<open>mcp.py\<close>.
\<close>

theorem exam_type_predicate:
  assumes "str_column df ''Exam_Type''"
  shows
  "(app_filter_results (f\<lparr>exam_type := Some ''Supplementary''\<rparr>) df =
      select (\<lambda>r. \<exists>t. item df r ''Exam_Type'' = PStr t \<and> sublist ''supplementary'' (lower t))
        (app_filter_results (f\<lparr>exam_type := None\<rparr>) df)
    \<and> mcp_filter_results (f\<lparr>exam_type := Some ''Supplementary''\<rparr>) df =
      select (\<lambda>r. \<exists>t. item df r ''Exam_Type'' = PStr t \<and> sublist ''supplementary'' (lower t))
        (mcp_filter_results (f\<lparr>exam_type := None\<rparr>) df))
   \<and> (r \<in> set (rows df)
        \<and> (item df r ''Exam_Type'' = PStr ''Supplementary''
           \<or> item df r ''Exam_Type'' = PStr ''RC/RV Supplementary'') \<longrightarrow>
        (\<exists>rs. app_filter_results (no_filters\<lparr>exam_type := Some ''Supplementary''\<rparr>) df = Inr rs
           \<and> r \<in> set rs)
        \<and> (\<exists>rs. mcp_filter_results (no_filters\<lparr>exam_type := Some ''Supplementary''\<rparr>) df = Inr rs
           \<and> r \<in> set rs))
   \<and> (app_filter_results (f\<lparr>exam_type := Some ''Regular''\<rparr>) df =
      select (\<lambda>r. \<exists>t. item df r ''Exam_Type'' = PStr t \<and> lower t = ''regular'')
        (app_filter_results (f\<lparr>exam_type := None\<rparr>) df)
    \<and> mcp_filter_results (f\<lparr>exam_type := Some ''Regular''\<rparr>) df =
      select (\<lambda>r. item df r ''Exam_Type'' = PStr ''Regular'')
        (mcp_filter_results (f\<lparr>exam_type := None\<rparr>) df))"
proof -
  have none: "app_filter_results (no_filters\<lparr>exam_type := None\<rparr>) df = Inr (rows df)"
    "mcp_filter_results (no_filters\<lparr>exam_type := None\<rparr>) df = Inr (rows df)"
    by (simp_all add: app_filter_results_def mcp_filter_results_def no_filters_def)
  have particular:
    "(\<exists>rs. app_filter_results (no_filters\<lparr>exam_type := Some ''Supplementary''\<rparr>) df = Inr rs
         \<and> r \<in> set rs)
     \<and> (\<exists>rs. mcp_filter_results (no_filters\<lparr>exam_type := Some ''Supplementary''\<rparr>) df = Inr rs
         \<and> r \<in> set rs)"
    if "r \<in> set (rows df)
        \<and> (item df r ''Exam_Type'' = PStr ''Supplementary''
           \<or> item df r ''Exam_Type'' = PStr ''RC/RV Supplementary'')"
    using that supplementary_labels
    by (auto simp: app_exam_type_facet [OF assms] mcp_exam_type_facet [OF assms] none)
  show ?thesis
    using particular
    by (intro conjI impI app_exam_type_facet [OF assms] mcp_exam_type_facet [OF assms]) blast+
qed

text \<open>On three rows with the exam types \<open>Supplementary\<close>, \<open>RC/RV Supplementary\<close> and
  \<open>Regular\<close>: the first two are kept by \<open>Supplementary\<close>, the third by \<open>Regular\<close>.\<close>

theorem exam_type_predicate_witness:
  "codes_of (app_filter_results (no_filters\<lparr>exam_type := Some ''Supplementary''\<rparr>)
       (frame [row_1866, row_1871(''Exam_Type'' := Str ''RC/RV Supplementary''),
               row_1868(''Exam_Type'' := Str ''Regular'')]))
     = codes_of (select (\<lambda>r. \<exists>t. item (frame [row_1866,
               row_1871(''Exam_Type'' := Str ''RC/RV Supplementary''),
               row_1868(''Exam_Type'' := Str ''Regular'')]) r ''Exam_Type'' = PStr t
            \<and> sublist ''supplementary'' (lower t))
         (app_filter_results (no_filters\<lparr>exam_type := None\<rparr>)
            (frame [row_1866, row_1871(''Exam_Type'' := Str ''RC/RV Supplementary''),
               row_1868(''Exam_Type'' := Str ''Regular'')])))
   \<and> codes_of (app_filter_results (no_filters\<lparr>exam_type := Some ''Supplementary''\<rparr>)
       (frame [row_1866, row_1871(''Exam_Type'' := Str ''RC/RV Supplementary''),
               row_1868(''Exam_Type'' := Str ''Regular'')])) = Inr [Num 1866, Num 1871]
   \<and> codes_of (mcp_filter_results (no_filters\<lparr>exam_type := Some ''Supplementary''\<rparr>)
       (frame [row_1866, row_1871(''Exam_Type'' := Str ''RC/RV Supplementary''),
               row_1868(''Exam_Type'' := Str ''Regular'')])) = Inr [Num 1866, Num 1871]
   \<and> codes_of (app_filter_results (no_filters\<lparr>exam_type := Some ''Regular''\<rparr>)
       (frame [row_1866, row_1871(''Exam_Type'' := Str ''RC/RV Supplementary''),
               row_1868(''Exam_Type'' := Str ''Regular'')])) = Inr [Num 1868]
   \<and> codes_of (mcp_filter_results (no_filters\<lparr>exam_type := Some ''Regular''\<rparr>)
       (frame [row_1866, row_1871(''Exam_Type'' := Str ''RC/RV Supplementary''),
               row_1868(''Exam_Type'' := Str ''Regular'')])) = Inr [Num 1868]
   \<and> (\<exists>rs. app_filter_results (no_filters\<lparr>exam_type := Some ''Supplementary''\<rparr>)
          (frame [row_1866, row_1871(''Exam_Type'' := Str ''RC/RV Supplementary''),
               row_1868(''Exam_Type'' := Str ''Regular'')]) = Inr rs
        \<and> row_1871(''Exam_Type'' := Str ''RC/RV Supplementary'') \<in> set rs)
   \<and> (\<exists>rs. mcp_filter_results (no_filters\<lparr>exam_type := Some ''Supplementary''\<rparr>)
          (frame [row_1866, row_1871(''Exam_Type'' := Str ''RC/RV Supplementary''),
               row_1868(''Exam_Type'' := Str ''Regular'')]) = Inr rs
        \<and> row_1871(''Exam_Type'' := Str ''RC/RV Supplementary'') \<in> set rs)"
proof -
  let ?df = "frame [row_1866, row_1871(''Exam_Type'' := Str ''RC/RV Supplementary''),
               row_1868(''Exam_Type'' := Str ''Regular'')]"
  let ?r = "row_1871(''Exam_Type'' := Str ''RC/RV Supplementary'')"
  have s: "str_column ?df ''Exam_Type''"
    by code_simp
  note t = exam_type_predicate [OF s, of no_filters, THEN conjunct1, THEN conjunct1]
  have e: "codes_of (app_filter_results (no_filters\<lparr>exam_type := Some ''Supplementary''\<rparr>) ?df)
        = Inr [Num 1866, Num 1871]"
    "codes_of (mcp_filter_results (no_filters\<lparr>exam_type := Some ''Supplementary''\<rparr>) ?df)
        = Inr [Num 1866, Num 1871]"
    "codes_of (app_filter_results (no_filters\<lparr>exam_type := Some ''Regular''\<rparr>) ?df)
        = Inr [Num 1868]"
    "codes_of (mcp_filter_results (no_filters\<lparr>exam_type := Some ''Regular''\<rparr>) ?df)
        = Inr [Num 1868]"
    by code_simp+
  have i: "item ?df ?r ''Exam_Type'' = PStr ''RC/RV Supplementary''"
    by code_simp
  have k: "?r \<in> set (rows ?df)
      \<and> (item ?df ?r ''Exam_Type'' = PStr ''Supplementary''
         \<or> item ?df ?r ''Exam_Type'' = PStr ''RC/RV Supplementary'')"
    using i by (simp add: frame_def)
  note p = exam_type_predicate [OF s, where r = ?r, THEN conjunct2, THEN conjunct1,
      THEN mp, OF k]
  show ?thesis
    by (intro conjI arg_cong [where f = codes_of] t e p [THEN conjunct1] p [THEN conjunct2])
qed

subsection \<open>The RC/RV flag\<close>

text \<open>
  C8, as the code has it. Let \<open>Title\<close> be a column of strings. With the value \<open>Yes\<close>,
  \<open>app.py\<close> and \<open>mcp.py\<close> keep, among the rows the other facets admit, exactly the rows
  whose title is present and contains \<open>RC/RV\<close> or \<open>RCRV\<close>, letter case put aside. With
  any other value \<open>app.py\<close> excludes nothing: the result is that of the criteria without
  the flag. In \<open>mcp.py\<close> the value \<open>No\<close> keeps exactly the rows the value \<open>Yes\<close> drops, and
  only a value that is neither \<open>Yes\<close> nor \<open>No\<close> excludes nothing.
\<close>

theorem rc_rv_predicate:
  assumes "str_column df ''Title''"
  shows
  "(app_filter_results (f\<lparr>rc_rv := Some ''Yes''\<rparr>) df =
      select (\<lambda>r. \<exists>t. item df r ''Title'' = PStr t
                 \<and> (sublist ''rc/rv'' (lower t) \<or> sublist ''rcrv'' (lower t)))
        (app_filter_results (f\<lparr>rc_rv := None\<rparr>) df)
    \<and> mcp_filter_results (f\<lparr>rc_rv := Some ''Yes''\<rparr>) df =
      select (\<lambda>r. \<exists>t. item df r ''Title'' = PStr t
                 \<and> (sublist ''rc/rv'' (lower t) \<or> sublist ''rcrv'' (lower t)))
        (mcp_filter_results (f\<lparr>rc_rv := None\<rparr>) df))
   \<and> (v \<noteq> ''Yes'' \<longrightarrow>
        app_filter_results (f\<lparr>rc_rv := Some v\<rparr>) df = app_filter_results (f\<lparr>rc_rv := None\<rparr>) df)
   \<and> mcp_filter_results (f\<lparr>rc_rv := Some ''No''\<rparr>) df =
      select (\<lambda>r. \<not> (\<exists>t. item df r ''Title'' = PStr t
                 \<and> (sublist ''rc/rv'' (lower t) \<or> sublist ''rcrv'' (lower t))))
        (mcp_filter_results (f\<lparr>rc_rv := None\<rparr>) df)
   \<and> (v \<noteq> ''Yes'' \<and> v \<noteq> ''No'' \<longrightarrow>
        mcp_filter_results (f\<lparr>rc_rv := Some v\<rparr>) df = mcp_filter_results (f\<lparr>rc_rv := None\<rparr>) df)"
  using assms
  by (intro conjI impI app_rc_rv_facet mcp_rc_rv_facet) simp_all

text \<open>On the sample rows: the value \<open>No\<close> changes nothing in \<open>app.py\<close>, the value \<open>Maybe\<close>
  changes nothing in \<open>mcp.py\<close>, and \<open>Yes\<close> keeps the one RC/RV row.\<close>

theorem rc_rv_predicate_witness:
  "app_filter_results (no_filters\<lparr>rc_rv := Some ''No''\<rparr>) sample_df =
       app_filter_results (no_filters\<lparr>rc_rv := None\<rparr>) sample_df
   \<and> mcp_filter_results (no_filters\<lparr>rc_rv := Some ''Maybe''\<rparr>) sample_df =
       mcp_filter_results (no_filters\<lparr>rc_rv := None\<rparr>) sample_df
   \<and> codes_of (app_filter_results (no_filters\<lparr>rc_rv := Some ''Yes''\<rparr>) sample_df) = Inr [Num 1871]
   \<and> codes_of (mcp_filter_results (no_filters\<lparr>rc_rv := Some ''Yes''\<rparr>) sample_df) = Inr [Num 1871]"
proof -
  have s: "str_column sample_df ''Title''"
    by code_simp
  have h: "''No'' \<noteq> ''Yes''" by simp
  have h': "''Maybe'' \<noteq> ''Yes'' \<and> ''Maybe'' \<noteq> ''No''" by simp
  note a = rc_rv_predicate [OF s, of no_filters "''No''",
      THEN conjunct2, THEN conjunct1, THEN mp, OF h]
  note m = rc_rv_predicate [OF s, of no_filters "''Maybe''",
      THEN conjunct2, THEN conjunct2, THEN conjunct2, THEN mp, OF h']
  have y: "codes_of (app_filter_results (no_filters\<lparr>rc_rv := Some ''Yes''\<rparr>) sample_df) = Inr [Num 1871]"
    "codes_of (mcp_filter_results (no_filters\<lparr>rc_rv := Some ''Yes''\<rparr>) sample_df) = Inr [Num 1871]"
    by code_simp+
  from a m y show ?thesis by (intro conjI)
qed

text \<open>The claim as written fails in \<open>mcp.py\<close>: the value \<open>No\<close> drops the RC/RV row
  that the criteria without the flag keep.\<close>

theorem rc_rv_no_counterexample:
  "codes_of (mcp_filter_results (no_filters\<lparr>rc_rv := Some ''No''\<rparr>) sample_df) =
     Inr [Num 1866, Num 1868]
   \<and> codes_of (mcp_filter_results (no_filters\<lparr>rc_rv := None\<rparr>) sample_df) =
     Inr [Num 1866, Num 1868, Num 1871]"
  by code_simp


section \<open>Properties of the facet values\<close>

subsection \<open>Numbers as strings\<close>

lemma digit_value_digit_char: "d < 10 \<Longrightarrow> digit_value (digit_char d) = Some d"
  by (simp add: digit_value_def digit_char_def)

lemma digit_char_zero: "d < 10 \<Longrightarrow> digit_char d = CHR ''0'' \<longleftrightarrow> d = 0"
proof
  assume d: "d < 10" and "digit_char d = CHR ''0''"
  then have "digit_value (digit_char d) = digit_value CHR ''0''"
    by simp
  with d show "d = 0"
    by (simp add: digit_value_digit_char) (simp add: digit_value_def)
next
  have "digit_char 0 = CHR ''0''"
    by code_simp
  moreover assume "d = 0"
  ultimately show "digit_char d = CHR ''0''"
    by simp
qed

lemma read_digits_snoc:
  "read_digits a (cs @ [c]) =
     (case read_digits a cs of
        None \<Rightarrow> None
      | Some m \<Rightarrow> (case digit_value c of None \<Rightarrow> None | Some d \<Rightarrow> Some (10 * m + d)))"
  by (induction cs arbitrary: a) (auto split: option.splits)

lemma str_nat_not_Nil [simp]: "str_nat n \<noteq> []"
  by (subst str_nat.simps) simp

lemma read_digits_str_nat: "read_digits 0 (str_nat n) = Some n"
proof (induction n rule: str_nat.induct)
  case (1 n)
  show ?case
  proof (cases "n < 10")
    case True
    then show ?thesis
      by (subst str_nat.simps) (simp add: digit_value_digit_char)
  next
    case False
    with 1 have "read_digits 0 (str_nat (n div 10)) = Some (n div 10)"
      by simp
    with False show ?thesis
      by (subst str_nat.simps) (simp add: read_digits_snoc digit_value_digit_char)
  qed
qed

lemma hd_str_nat_zero: "n \<noteq> 0 \<Longrightarrow> hd (str_nat n) \<noteq> CHR ''0''"
proof (induction n rule: str_nat.induct)
  case (1 n)
  show ?case
  proof (cases "n < 10")
    case True
    with 1(2) show ?thesis
      by (subst str_nat.simps) (simp add: digit_char_zero)
  next
    case False
    then have "n div 10 \<noteq> 0"
      by simp
    with 1(1) False have "hd (str_nat (n div 10)) \<noteq> CHR ''0''"
      by simp
    with False show ?thesis
      by (subst str_nat.simps) simp
  qed
qed

lemma length_str_nat: "1 < length (str_nat n) \<Longrightarrow> n \<noteq> 0"
  by (subst (asm) str_nat.simps) (auto split: if_splits)

lemma read_nat_str_nat: "read_nat (str_nat n) = Some n"
  using hd_str_nat_zero [of n] length_str_nat [of n]
  by (auto simp: read_nat_def read_digits_str_nat)

lemma hd_str_nat_minus: "hd (str_nat n) \<noteq> CHR ''-''"
proof
  assume h: "hd (str_nat n) = CHR ''-''"
  obtain c cs where s: "str_nat n = c # cs"
    by (cases "str_nat n") auto
  with h have "read_digits 0 (str_nat n) = None"
    by (simp add: digit_value_def)
  then show False
    by (simp add: read_digits_str_nat)
qed

text \<open>\<open>str\<close> writes a whole number as the one string that reads as it.\<close>

lemma read_int_str_int: "read_int (str_int i) = Some i"
proof (cases "i < 0")
  case True
  then show ?thesis
    by (simp add: read_int_def str_int_def read_nat_str_nat)
next
  case False
  then show ?thesis
    by (simp add: read_int_def str_int_def read_nat_str_nat hd_str_nat_minus)
qed

subsection \<open>The values of a column\<close>

lemma set_unique [simp]: "set (unique xs) = set xs"
  by (induction xs rule: unique.induct) auto

lemma distinct_unique [simp]: "distinct (unique xs)"
  by (induction xs rule: unique.induct) auto

lemma notna_iff: "notna x \<longleftrightarrow> x \<noteq> PNaN"
  by (cases x) auto

lemma get_unique_values_set:
  assumes "c \<in> set (columns df)"
  shows "set (get_unique_values c df) =
     {py_str x | x. x \<in> (\<lambda>r. item df r c) ` set (rows df) \<and> x \<noteq> PNaN
        \<and> lower (py_str x) \<noteq> ''unknown'' \<and> lower (py_str x) \<noteq> ''nan''}"
  using assms by (auto simp: get_unique_values_def notna_iff)

lemma get_unique_values_distinct: "distinct (get_unique_values c df)"
  by (simp add: get_unique_values_def)

lemma get_unique_values_no_sentinel:
  "v \<in> set (get_unique_values c df) \<Longrightarrow> lower v \<noteq> ''unknown'' \<and> lower v \<noteq> ''nan''"
  by (auto simp: get_unique_values_def split: if_splits)

text \<open>What a returned string is, by the type of the column: a text of the column as it
  is stored; in a column of whole numbers the decimal notation of a number of the column;
  in a column of whole numbers and empty fields that notation followed by \<open>.0\<close>.\<close>

lemma get_unique_values_coerced:
  assumes "s \<in> set (get_unique_values c df)"
  shows "\<exists>r \<in> set (rows df).
      r c = Str s
      \<or> (\<exists>i. r c = Num i \<and> dtype_of df c \<noteq> Float64 \<and> read_int s = Some i)
      \<or> (\<exists>i d. r c = Num i \<and> dtype_of df c = Float64 \<and> s = d @ ''.0'' \<and> read_int d = Some i)"
proof -
  from assms have c: "c \<in> set (columns df)"
    by (auto simp: get_unique_values_def split: if_splits)
  from assms obtain r where r: "r \<in> set (rows df)" and n: "item df r c \<noteq> PNaN"
    and s: "s = py_str (item df r c)"
    unfolding get_unique_values_set [OF c] by auto
  show ?thesis
  proof (cases "r c")
    case NaN
    with n show ?thesis
      by (simp add: item_def)
  next
    case (Str t)
    with s r show ?thesis
      by (auto simp: item_def)
  next
    case (Num i)
    with s r show ?thesis
      by (cases "dtype_of df c") (auto simp: item_def read_int_str_int intro!: bexI [of _ r])
  qed
qed

text \<open>
  C9. \<open>get_unique_values\<close> of \<open>app.py\<close> is a total function of the column name and the
  catalog (no branch of it raises). For a name that is not a column of the frame it returns
  the empty list. For a column it returns, each once, the values of the column that are
  not missing, as strings (a text as it is, a whole number in decimal notation, with \<open>.0\<close>
  in a column that has empty fields), without those that lower-case to \<open>unknown\<close> or
  \<open>nan\<close>. So no value returned for \<open>Year\<close> is \<open>unknown\<close> or \<open>nan\<close> in any letter case.
  The whole numbers of the catalog are taken to be numbers a float holds exactly.
\<close>

theorem distinct_values:
  assumes "exact_numbers df"
  shows
  "(c \<notin> set (columns df) \<longrightarrow> get_unique_values c df = [])
   \<and> (c \<in> set (columns df) \<longrightarrow>
         set (get_unique_values c df) =
           {py_str x | x. x \<in> (\<lambda>r. item df r c) ` set (rows df) \<and> x \<noteq> PNaN
              \<and> lower (py_str x) \<noteq> ''unknown'' \<and> lower (py_str x) \<noteq> ''nan''})
   \<and> (\<forall>s \<in> set (get_unique_values c df). \<exists>r \<in> set (rows df).
         r c = Str s
         \<or> (\<exists>i. r c = Num i \<and> dtype_of df c \<noteq> Float64 \<and> read_int s = Some i)
         \<or> (\<exists>i d. r c = Num i \<and> dtype_of df c = Float64 \<and> s = d @ ''.0''
               \<and> read_int d = Some i))
   \<and> distinct (get_unique_values c df)
   \<and> (\<forall>v \<in> set (get_unique_values ''Year'' df). lower v \<noteq> ''unknown'' \<and> lower v \<noteq> ''nan'')"
proof (intro conjI impI ballI)
  show "get_unique_values c df = []" if "c \<notin> set (columns df)"
    using that by (simp add: get_unique_values_def)
  show "set (get_unique_values c df) =
           {py_str x | x. x \<in> (\<lambda>r. item df r c) ` set (rows df) \<and> x \<noteq> PNaN
              \<and> lower (py_str x) \<noteq> ''unknown'' \<and> lower (py_str x) \<noteq> ''nan''}"
    if "c \<in> set (columns df)"
    using that by (rule get_unique_values_set)
  show "\<exists>r \<in> set (rows df).
         r c = Str s
         \<or> (\<exists>i. r c = Num i \<and> dtype_of df c \<noteq> Float64 \<and> read_int s = Some i)
         \<or> (\<exists>i d. r c = Num i \<and> dtype_of df c = Float64 \<and> s = d @ ''.0''
               \<and> read_int d = Some i)"
    if "s \<in> set (get_unique_values c df)" for s
    using that by (rule get_unique_values_coerced)
  show "distinct (get_unique_values c df)"
    by (rule get_unique_values_distinct)
  show "lower v \<noteq> ''unknown''" "lower v \<noteq> ''nan''"
    if "v \<in> set (get_unique_values ''Year'' df)" for v
    using get_unique_values_no_sentinel [OF that] by simp_all
qed


text \<open>On the sample rows: a name that is not a column; the \<open>Year\<close> cells \<open>IV\<close>, \<open>UNKNOWN\<close>,
  \<open>III\<close>, missing, \<open>NAN\<close> and \<open>IV\<close>; the exam codes; and the exam codes when one of them
  is missing, which makes the column a column of floats: the value \<open>1866.0\<close> then comes
  from a cell that holds a number whose decimal notation is followed by \<open>.0\<close>.\<close>

theorem distinct_values_witness:
  "get_unique_values ''Branch'' sample_df = []
   \<and> get_unique_values ''Year''
        (frame [row_1866, row_1868(''Year'' := Str ''UNKNOWN''), row_1871, row_1866(''Year'' := NaN),
                row_1866(''Year'' := Str ''NAN''), row_1868]) = [''IV'', ''III'']
   \<and> lower ''IV'' \<noteq> ''unknown'' \<and> lower ''IV'' \<noteq> ''nan''
   \<and> get_unique_values ''examCode'' sample_df = [''1866'', ''1868'', ''1871'']
   \<and> set (get_unique_values ''examCode'' sample_df) =
        {py_str x | x. x \<in> (\<lambda>r. item sample_df r ''examCode'') ` set (rows sample_df) \<and> x \<noteq> PNaN
           \<and> lower (py_str x) \<noteq> ''unknown'' \<and> lower (py_str x) \<noteq> ''nan''}
   \<and> get_unique_values ''examCode'' (frame [row_1866, row_1868(''examCode'' := NaN), row_1871])
       = [''1866.0'', ''1871.0'']
   \<and> (\<exists>r \<in> set (rows (frame [row_1866, row_1868(''examCode'' := NaN), row_1871])).
         r ''examCode'' = Str ''1866.0''
         \<or> (\<exists>i. r ''examCode'' = Num i
               \<and> dtype_of (frame [row_1866, row_1868(''examCode'' := NaN), row_1871]) ''examCode''
                   \<noteq> Float64
               \<and> read_int ''1866.0'' = Some i)
         \<or> (\<exists>i d. r ''examCode'' = Num i
               \<and> dtype_of (frame [row_1866, row_1868(''examCode'' := NaN), row_1871]) ''examCode''
                   = Float64
               \<and> ''1866.0'' = d @ ''.0'' \<and> read_int d = Some i))
   \<and> read_int ''1866.0'' = None \<and> read_int ''1866'' = Some 1866"
proof -
  let ?df = "frame [row_1866, row_1868(''Year'' := Str ''UNKNOWN''), row_1871,
      row_1866(''Year'' := NaN), row_1866(''Year'' := Str ''NAN''), row_1868]"
  let ?fl = "frame [row_1866, row_1868(''examCode'' := NaN), row_1871]"
  have x: "exact_numbers sample_df" "exact_numbers ?df" "exact_numbers ?fl"
    by code_simp+
  have h: "''Branch'' \<notin> set (columns sample_df)"
    by code_simp
  note absent = distinct_values [OF x(1), of "''Branch''", THEN conjunct1, THEN mp, OF h]
  have v: "get_unique_values ''Year'' ?df = [''IV'', ''III'']"
    by code_simp
  then have m: "''IV'' \<in> set (get_unique_values ''Year'' ?df)"
    by simp
  note s = distinct_values [OF x(2), of "''Year''", THEN conjunct2, THEN conjunct2,
      THEN conjunct2, THEN conjunct2, THEN bspec, OF m]
  have i: "get_unique_values ''examCode'' sample_df = [''1866'', ''1868'', ''1871'']"
    by code_simp
  have c: "''examCode'' \<in> set (columns sample_df)"
    by code_simp
  note e = distinct_values [OF x(1), of "''examCode''", THEN conjunct2, THEN conjunct1,
      THEN mp, OF c]
  have f: "get_unique_values ''examCode'' ?fl = [''1866.0'', ''1871.0'']"
    by code_simp
  then have m': "''1866.0'' \<in> set (get_unique_values ''examCode'' ?fl)"
    by simp
  note k = distinct_values [OF x(3), of "''examCode''", THEN conjunct2, THEN conjunct2,
      THEN conjunct1, THEN bspec, OF m']
  have n: "read_int ''1866.0'' = None" "read_int ''1866'' = Some 1866"
    by code_simp+
  show ?thesis
    by (intro conjI absent v s [THEN conjunct1] s [THEN conjunct2] i e f k n)
qed


section \<open>Properties of the result workflow\<close>

subsection \<open>The parameters of the request\<close>

lemma split_not_Nil [simp]: "split sep s \<noteq> []"
  by (induction s) (auto split: list.splits)

lemma hd_split: "hd (split sep s) = takeWhile (\<lambda>c. c \<noteq> sep) s"
  by (induction s) (auto split: list.splits)

lemma split_with:
  "sep \<in> set s \<Longrightarrow>
     split sep s = takeWhile (\<lambda>c. c \<noteq> sep) s # split sep (drop 1 (dropWhile (\<lambda>c. c \<noteq> sep) s))"
  by (induction s) (auto split: list.splits)

text \<open>\<open>url.split('?')[1]\<close> is the text after the first \<open>?\<close> up to the next one; the
  index is never out of range.\<close>

lemma extract_params_eq:
  "extract_params url ps =
     Inr (add_params (split CHR ''&'' (takeWhile (\<lambda>c. c \<noteq> CHR ''?'') (after_question url))) ps)"
proof (cases "CHR ''?'' \<in> set url")
  case True
  obtain q qs where q: "split CHR ''?'' (after_question url) = q # qs"
    by (cases "split CHR ''?'' (after_question url)") auto
  then have "q = takeWhile (\<lambda>c. c \<noteq> CHR ''?'') (after_question url)"
    using hd_split [of "CHR ''?''" "after_question url"] by simp
  with True q show ?thesis
    by (simp add: extract_params_def split_with after_question_def)
next
  case False
  then have dw: "dropWhile (\<lambda>c. c \<noteq> CHR ''?'') url = []"
    by auto
  have "after_question url = []"
    by (simp add: after_question_def dw)
  with False show ?thesis
    by (simp add: extract_params_def)
qed

lemma after_single_question:
  "count_list url c \<le> 1 \<Longrightarrow> c \<notin> set (drop 1 (dropWhile (\<lambda>x. x \<noteq> c) url))"
proof (induction url)
  case Nil
  then show ?case by simp
next
  case (Cons x url)
  show ?case
  proof (cases "x = c")
    case True
    with Cons.prems have "count_list url c = 0"
      by simp
    with True show ?thesis
      by (simp add: count_list_0_iff)
  next
    case False
    with Cons show ?thesis
      by simp
  qed
qed

lemma query_single_question:
  "count_list url CHR ''?'' \<le> 1 \<Longrightarrow>
     takeWhile (\<lambda>c. c \<noteq> CHR ''?'') (after_question url) = after_question url"
  using after_single_question [of url "CHR ''?''"]
  by (auto simp: after_question_def takeWhile_eq_all_conv)

lemma map_of_add_params:
  "map_of (add_params comps ps) =
     map_of ps ++ map_of (rev (map (\<lambda>p. (fst (split_first CHR ''='' p), PStr (snd (split_first CHR ''='' p))))
       (filter (\<lambda>p. CHR ''='' \<in> set p) comps)))"
proof (induction comps arbitrary: ps)
  case Nil
  then show ?case by simp
next
  case (Cons p comps)
  let ?kv = "\<lambda>p. (fst (split_first CHR ''='' p), PStr (snd (split_first CHR ''='' p)))"
  let ?M = "map_of (rev (map ?kv (filter (\<lambda>p. CHR ''='' \<in> set p) comps)))"
  show ?case
  proof (cases "CHR ''='' \<in> set p")
    case True
    have "map_of (add_params (p # comps) ps) =
        map_of (AList.update (fst (?kv p)) (snd (?kv p)) ps) ++ ?M"
      using True by (simp add: Cons.IH split: prod.splits)
    also have "map_of (AList.update (fst (?kv p)) (snd (?kv p)) ps) = map_of ps ++ map_of [?kv p]"
      by (simp add: update_conv')
    finally have l: "map_of (add_params (p # comps) ps) = (map_of ps ++ map_of [?kv p]) ++ ?M" .
    have r: "map_of (rev (map ?kv (filter (\<lambda>p. CHR ''='' \<in> set p) (p # comps)))) =
        map_of [?kv p] ++ ?M"
      using True by simp
    show ?thesis
      unfolding l r by (simp only: map_add_assoc)
  next
    case False
    then show ?thesis by (simp add: Cons.IH)
  qed
qed

lemma map_of_add_params_reference:
  "map_of (add_params (split CHR ''&'' (after_question url)) ps) = map_of ps ++ reference_params url"
  by (simp add: map_of_add_params reference_params_def reference_pairs_def split_first_def
      comp_def)

lemma build_request_eq:
  "build_request (PStr url) ps htno =
     Inr \<lparr>req_data = AList.update ''htno'' (PStr htno)
            (add_params (split CHR ''&'' (takeWhile (\<lambda>c. c \<noteq> CHR ''?'') (after_question url))) ps),
          req_referer = url\<rparr>"
  by (simp add: extract_params_eq)

lemma build_request_params:
  assumes "count_list url CHR ''?'' \<le> 1"
    and "build_request (PStr url) ps htno = Inr rq"
  shows "map_of (req_data rq) = (map_of ps ++ reference_params url)(''htno'' \<mapsto> PStr htno)"
    and "req_referer rq = url"
  using assms(2)
  by (auto simp: extract_params_eq query_single_question [OF assms(1)] update_conv'
      map_of_add_params_reference)

lemma declared_schema_columns:
  assumes "declared_schema df"
  shows "''URL'' \<in> set (columns df)" "''degree'' \<in> set (columns df)"
    "''examCode'' \<in> set (columns df)" "''etype'' \<in> set (columns df)"
    "''type'' \<in> set (columns df)" "''result'' \<in> set (columns df)" "''grad'' \<in> set (columns df)"
  using assms by (simp_all add: declared_schema_def declared_columns_def)

lemma basic_params_declared:
  assumes "declared_schema df"
  shows "\<exists>ps. basic_params df r = Inr ps
      \<and> map_of ps = (declared_params df r)
          (''degree'' \<mapsto> item df r ''degree'', ''examCode'' \<mapsto> item df r ''examCode'')"
  by (simp add: basic_params_def row_item_def declared_schema_columns [OF assms]
      declared_params_def update_conv' fun_eq_iff)

lemma or_null_present: "v \<noteq> PNaN \<Longrightarrow> or_null v = v"
  by (cases v) (simp_all add: or_null_def)

lemma declared_params_present:
  assumes "item df r ''degree'' \<noteq> PNaN" and "item df r ''examCode'' \<noteq> PNaN"
  shows "(declared_params df r)
      (''degree'' \<mapsto> item df r ''degree'', ''examCode'' \<mapsto> item df r ''examCode'')
    = declared_params df r"
  using assms by (simp add: declared_params_def or_null_present fun_eq_iff)

lemma mcp_request_params:
  assumes "declared_schema df" and "item df r ''URL'' = PStr url"
    and "count_list url CHR ''?'' \<le> 1"
    and "item df r ''degree'' \<noteq> PNaN" and "item df r ''examCode'' \<noteq> PNaN"
  shows "\<exists>rq. mcp_request df r htno = Inr rq \<and> req_referer rq = url
      \<and> map_of (req_data rq) =
          (declared_params df r ++ reference_params url)(''htno'' \<mapsto> PStr htno)"
proof -
  obtain ps where ps: "basic_params df r = Inr ps" and m: "map_of ps = declared_params df r"
    using basic_params_declared [OF assms(1), of r] declared_params_present [OF assms(4,5)]
    by auto
  obtain rq where rq: "build_request (PStr url) ps htno = Inr rq"
    by (simp add: extract_params_eq)
  have "mcp_request df r htno = Inr rq"
    using rq
    by (simp add: mcp_request_def row_item_def declared_schema_columns [OF assms(1)] assms(2) ps)
  with build_request_params [OF assms(3) rq] m show ?thesis
    by simp
qed

lemma app_request_params:
  assumes "declared_schema df" and "item df r ''URL'' = PStr url"
    and "count_list url CHR ''?'' \<le> 1"
  shows "\<exists>rq. app_request df r htno = Inr rq \<and> req_referer rq = url
      \<and> map_of (req_data rq) = (reference_params url)(''htno'' \<mapsto> PStr htno)"
proof -
  obtain rq where rq: "build_request (PStr url) [] htno = Inr rq"
    by (simp add: extract_params_eq)
  have "app_request df r htno = Inr rq"
    using rq
    by (simp add: app_request_def row_item_def declared_schema_columns [OF assms(1)] assms(2))
  with build_request_params [OF assms(3) rq] show ?thesis
    by simp
qed



lemma mcp_generate_result_truthy:
  "c \<noteq> [] \<Longrightarrow> h \<noteq> [] \<Longrightarrow> mcp_generate_result e df (Some c) (Some h) w = app_generate e df c h w"
  by (simp add: mcp_generate_result_def)

subsection \<open>Looking the row up\<close>

lemma find_rows_column:
  "''examCode'' \<in> set (columns df) \<Longrightarrow>
     find_rows df c = Inr (filter (\<lambda>r. py_str (item df r ''examCode'') = c) (rows df))"
  by (simp add: find_rows_def where_col_column)

lemma find_rows_none:
  assumes "''examCode'' \<in> set (columns df)" and "c \<notin> set (exam_codes df)"
  shows "find_rows df c = Inr []"
  using assms by (auto simp: find_rows_column exam_codes_def filter_empty_conv)

lemma get_result_pdf_found:
  assumes "find_rows df c = Inr (r # rest)" and "mcp_request df r h = Inr rq"
  shows "get_result_pdf e df c h w = mcp_respond e c h rq w"
  using assms by (simp add: get_result_pdf_def)

lemma app_generate_found:
  assumes "find_rows df c = Inr (r # rest)" and "app_request df r h = Inr rq"
  shows "app_generate e df c h w = app_respond e c h rq w"
  using assms by (simp add: app_generate_def)

subsection \<open>The parameter mapping\<close>




subsection \<open>An exam code that is not in the catalog\<close>

text \<open>
  C2. Let the exam code be none of the exam codes of the catalog, taken as strings
  (\<open>astype(str)\<close> on the column). \<open>get_result_pdf\<close> of \<open>mcp.py\<close> returns the error
  ``Invalid exam code'' for every student id, and \<open>mcp_generate_result\<close> of \<open>app.py\<close>
  returns it (status 404) for every exam code and student id that are given, that is not
  empty. The world is left as it was: nothing is sent and no file is written, whatever the
  endpoint and the renderer are.
\<close>

theorem unknown_exam_code:
  assumes "''examCode'' \<in> set (columns df)" and "exact_numbers df"
    and "exam_code \<notin> set (exam_codes df)"
  shows
    "get_result_pdf e df exam_code htno w = (Tool_error ''Invalid exam code'', w)
     \<and> (exam_code \<noteq> [] \<and> htno \<noteq> [] \<longrightarrow>
          mcp_generate_result e df (Some exam_code) (Some htno) w =
            (Error_reply 404 ''Invalid exam code'', w))"
proof -
  have none: "find_rows df exam_code = Inr []"
    using assms(1,3) by (rule find_rows_none)
  have 1: "get_result_pdf e df exam_code htno w = (Tool_error ''Invalid exam code'', w)"
    by (simp add: get_result_pdf_def none)
  have 2: "mcp_generate_result e df (Some exam_code) (Some htno) w =
      (Error_reply 404 ''Invalid exam code'', w)"
    if "exam_code \<noteq> [] \<and> htno \<noteq> []"
    using that by (simp add: mcp_generate_result_def app_generate_def none)
  from 1 2 show ?thesis by (intro conjI impI)
qed

text \<open>On the sample rows at the exam code 9999; and at the exam code 1866 on a catalog
  where another exam code is missing, so that the column reads \<open>1866.0\<close> and \<open>nan\<close>.\<close>

theorem unknown_exam_code_witness:
  "get_result_pdf (env_answering 200 ''<html>marks</html>'') sample_df ''9999'' ''19H5A0501'' new_world
     = (Tool_error ''Invalid exam code'', new_world)
   \<and> mcp_generate_result (env_answering 200 ''<html>marks</html>'') sample_df
       (Some ''9999'') (Some ''19H5A0501'') new_world
     = (Error_reply 404 ''Invalid exam code'', new_world)
   \<and> exam_codes (frame [row_1866, row_1868(''examCode'' := NaN)]) = [''1866.0'', ''nan'']
   \<and> get_result_pdf (env_answering 200 ''<html>marks</html>'')
       (frame [row_1866, row_1868(''examCode'' := NaN)]) ''1866'' ''19H5A0501'' new_world
     = (Tool_error ''Invalid exam code'', new_world)"
proof -
  let ?df = "frame [row_1866, row_1868(''examCode'' := NaN)]"
  have c: "''examCode'' \<in> set (columns sample_df)" "''examCode'' \<in> set (columns ?df)"
    by code_simp+
  have x: "exact_numbers sample_df" "exact_numbers ?df"
    by code_simp+
  have h: "''9999'' \<notin> set (exam_codes sample_df)"
    by code_simp
  have l: "exam_codes ?df = [''1866.0'', ''nan'']"
    by code_simp
  then have h': "''1866'' \<notin> set (exam_codes ?df)"
    by simp
  have t: "''9999'' \<noteq> [] \<and> ''19H5A0501'' \<noteq> []"
    by simp
  note u = unknown_exam_code [OF c(1) x(1) h, of "env_answering 200 ''<html>marks</html>''"
      "''19H5A0501''" new_world]
  note v = unknown_exam_code [OF c(2) x(2) h', of "env_answering 200 ''<html>marks</html>''"
      "''19H5A0501''" new_world]
  show ?thesis
    by (intro conjI u [THEN conjunct1] u [THEN conjunct2, THEN mp, OF t] l v [THEN conjunct1])
qed

subsection \<open>The phrases of the endpoint\<close>

lemma get_result_pdf_success:
  assumes "get_result_pdf e df exam_code htno w = (Tool_success p, w')"
  shows "\<exists>rq status body bytes.
      post e rq = Response status body
      \<and> \<not> sublist ''No Records Found'' body \<and> \<not> sublist ''Invalid Hall Ticket Number'' body
      \<and> \<not> sublist ''Invalid HTNO'' body \<and> \<not> sublist ''Result Not Found'' body
      \<and> posts w' = posts w @ [rq] \<and> files w' = files w @ [(p, bytes)]"
  using assms
  by (auto simp: get_result_pdf_def mcp_respond_def Let_def contains_sublist error_indicators_def
      split: list.splits response.splits if_splits sum.splits)

lemma mcp_generate_result_success:
  assumes "mcp_generate_result e df c h w = (Success_reply u fn n, w')"
  shows "\<exists>rq status body path bytes.
      post e rq = Response status body \<and> \<not> (400 \<le> status \<and> status < 600)
      \<and> \<not> sublist ''No Records Found'' body \<and> \<not> sublist ''Invalid Hall Ticket Number'' body
      \<and> posts w' = posts w @ [rq] \<and> files w' = files w @ [(path, bytes)]"
  using assms
  by (auto simp: mcp_generate_result_def app_generate_def app_respond_def Let_def
      contains_sublist
      split: list.splits option.splits response.splits if_splits sum.splits)

lemma get_result_pdf_phrase:
  assumes "find_rows df exam_code = Inr (r # rest)"
    and "sublist ''Invalid Hall Ticket Number'' body \<or> sublist ''No Records Found'' body"
    and "mcp_request df r htno = Inr rq"
    and "post e rq = Response status body"
  shows "get_result_pdf e df exam_code htno w =
      (Tool_error ''No records found for this roll number'', w\<lparr>posts := posts w @ [rq]\<rparr>)"
  using assms(2,4)
  by (auto simp: get_result_pdf_found [OF assms(1,3)] mcp_respond_def Let_def contains_sublist
      error_indicators_def)

lemma mcp_generate_result_phrase:
  assumes "find_rows df exam_code = Inr (r # rest)"
    and "sublist ''Invalid Hall Ticket Number'' body \<or> sublist ''No Records Found'' body"
    and "exam_code \<noteq> []" and "htno \<noteq> []"
    and "app_request df r htno = Inr rq"
    and "post e rq = Response status body"
    and "\<not> (400 \<le> status \<and> status < 600)"
  shows "mcp_generate_result e df (Some exam_code) (Some htno) w =
      (Error_reply 404 ''No records found for this roll number'', w\<lparr>posts := posts w @ [rq]\<rparr>)"
  using assms(2,6,7)
  by (auto simp: mcp_generate_result_truthy [OF assms(3,4)] app_generate_found [OF assms(1,5)]
      app_respond_def Let_def contains_sublist)

text \<open>
  C3. Let the exam code match a row, and let the endpoint answer the request with a body
  that contains ``Invalid Hall Ticket Number'' or ``No Records Found''. \<open>get_result_pdf\<close>
  of \<open>mcp.py\<close> returns ``No records found for this roll number'', the reply for a record
  that is not found, and writes no file. So does \<open>mcp_generate_result\<close> of \<open>app.py\<close>, for
  a response that is not a transport failure (a status outside 400 to 599, which
  \<open>raise_for_status\<close> lets through). And a success reply is only given for a response
  whose body contains none of the phrases the entry point looks for (four in \<open>mcp.py\<close>, two
  in \<open>app.py\<close>); exactly one file is then written.
\<close>

theorem not_found_phrases:
  "(find_rows df exam_code = Inr (r # rest) \<and> exact_numbers df
      \<and> (sublist ''Invalid Hall Ticket Number'' body \<or> sublist ''No Records Found'' body) \<longrightarrow>
      (mcp_request df r htno = Inr rq \<and> post e rq = Response status body \<longrightarrow>
         get_result_pdf e df exam_code htno w =
           (Tool_error ''No records found for this roll number'', w\<lparr>posts := posts w @ [rq]\<rparr>))
      \<and> (exam_code \<noteq> [] \<and> htno \<noteq> [] \<and> app_request df r htno = Inr rq'
          \<and> post e rq' = Response status body \<and> \<not> (400 \<le> status \<and> status < 600) \<longrightarrow>
         mcp_generate_result e df (Some exam_code) (Some htno) w =
           (Error_reply 404 ''No records found for this roll number'',
            w\<lparr>posts := posts w @ [rq']\<rparr>)))
   \<and> (\<forall>p w'. get_result_pdf e df exam_code htno w = (Tool_success p, w') \<longrightarrow>
        (\<exists>rq status body bytes.
           post e rq = Response status body
           \<and> \<not> sublist ''No Records Found'' body \<and> \<not> sublist ''Invalid Hall Ticket Number'' body
           \<and> \<not> sublist ''Invalid HTNO'' body \<and> \<not> sublist ''Result Not Found'' body
           \<and> posts w' = posts w @ [rq] \<and> files w' = files w @ [(p, bytes)]))
   \<and> (\<forall>u fn n w'. mcp_generate_result e df c h w = (Success_reply u fn n, w') \<longrightarrow>
        (\<exists>rq status body path bytes.
           post e rq = Response status body \<and> \<not> (400 \<le> status \<and> status < 600)
           \<and> \<not> sublist ''No Records Found'' body \<and> \<not> sublist ''Invalid Hall Ticket Number'' body
           \<and> posts w' = posts w @ [rq] \<and> files w' = files w @ [(path, bytes)]))"
proof (intro conjI impI allI)
  assume a: "find_rows df exam_code = Inr (r # rest) \<and> exact_numbers df
      \<and> (sublist ''Invalid Hall Ticket Number'' body \<or> sublist ''No Records Found'' body)"
  {
    assume "mcp_request df r htno = Inr rq \<and> post e rq = Response status body"
    with a show "get_result_pdf e df exam_code htno w =
        (Tool_error ''No records found for this roll number'', w\<lparr>posts := posts w @ [rq]\<rparr>)"
      using get_result_pdf_phrase [of df exam_code r rest body htno rq e status w] by simp
  next
    assume "exam_code \<noteq> [] \<and> htno \<noteq> [] \<and> app_request df r htno = Inr rq'
        \<and> post e rq' = Response status body \<and> \<not> (400 \<le> status \<and> status < 600)"
    with a show "mcp_generate_result e df (Some exam_code) (Some htno) w =
        (Error_reply 404 ''No records found for this roll number'',
         w\<lparr>posts := posts w @ [rq']\<rparr>)"
      using mcp_generate_result_phrase [of df exam_code r rest body htno rq' e status w]
      by simp
  }
next
  fix p w'
  assume "get_result_pdf e df exam_code htno w = (Tool_success p, w')"
  then show "\<exists>rq status body bytes.
           post e rq = Response status body
           \<and> \<not> sublist ''No Records Found'' body \<and> \<not> sublist ''Invalid Hall Ticket Number'' body
           \<and> \<not> sublist ''Invalid HTNO'' body \<and> \<not> sublist ''Result Not Found'' body
           \<and> posts w' = posts w @ [rq] \<and> files w' = files w @ [(p, bytes)]"
    by (rule get_result_pdf_success)
next
  fix u fn n w'
  assume "mcp_generate_result e df c h w = (Success_reply u fn n, w')"
  then show "\<exists>rq status body path bytes.
           post e rq = Response status body \<and> \<not> (400 \<le> status \<and> status < 600)
           \<and> \<not> sublist ''No Records Found'' body \<and> \<not> sublist ''Invalid Hall Ticket Number'' body
           \<and> posts w' = posts w @ [rq] \<and> files w' = files w @ [(path, bytes)]"
    by (rule mcp_generate_result_success)
qed

text \<open>On the first sample row, with an endpoint that answers status 200 and a page that
  contains ``Invalid Hall Ticket Number'': both entry points return the error and write
  no file. With a page of marks both succeed, and the page has none of the phrases.\<close>

theorem not_found_phrases_witness:
  "fst (get_result_pdf (env_answering 200 ''<html>Invalid Hall Ticket Number</html>'')
       (frame [row_1866]) ''1866'' ''19H5A0501'' new_world)
     = Tool_error ''No records found for this roll number''
   \<and> files (snd (get_result_pdf (env_answering 200 ''<html>Invalid Hall Ticket Number</html>'')
       (frame [row_1866]) ''1866'' ''19H5A0501'' new_world)) = []
   \<and> fst (mcp_generate_result (env_answering 200 ''<html>Invalid Hall Ticket Number</html>'')
       (frame [row_1866]) (Some ''1866'') (Some ''19H5A0501'') new_world)
     = Error_reply 404 ''No records found for this roll number''
   \<and> files (snd (mcp_generate_result (env_answering 200 ''<html>Invalid Hall Ticket Number</html>'')
       (frame [row_1866]) (Some ''1866'') (Some ''19H5A0501'') new_world)) = []
   \<and> fst (get_result_pdf (env_answering 200 ''<html>marks</html>'')
       (frame [row_1866]) ''1866'' ''19H5A0501'' new_world)
     = Tool_success ''static/pdfs/result_19H5A0501_1866_20250808_101500.pdf''
   \<and> (\<exists>rq status body bytes.
         post (env_answering 200 ''<html>marks</html>'') rq = Response status body
         \<and> \<not> sublist ''No Records Found'' body \<and> \<not> sublist ''Invalid Hall Ticket Number'' body
         \<and> \<not> sublist ''Invalid HTNO'' body \<and> \<not> sublist ''Result Not Found'' body
         \<and> posts (snd (get_result_pdf (env_answering 200 ''<html>marks</html>'')
               (frame [row_1866]) ''1866'' ''19H5A0501'' new_world)) = posts new_world @ [rq]
         \<and> files (snd (get_result_pdf (env_answering 200 ''<html>marks</html>'')
               (frame [row_1866]) ''1866'' ''19H5A0501'' new_world))
             = files new_world
               @ [(''static/pdfs/result_19H5A0501_1866_20250808_101500.pdf'', bytes)])
   \<and> fst (mcp_generate_result (env_answering 200 ''<html>marks</html>'')
       (frame [row_1866]) (Some ''1866'') (Some ''19H5A0501'') new_world)
     = Success_reply ''/static/pdfs/result_19H5A0501_1866_20250808_101500.pdf''
         ''result_19H5A0501_1866_20250808_101500.pdf'' 18
   \<and> (\<exists>rq status body path bytes.
         post (env_answering 200 ''<html>marks</html>'') rq = Response status body
         \<and> \<not> (400 \<le> status \<and> status < 600)
         \<and> \<not> sublist ''No Records Found'' body \<and> \<not> sublist ''Invalid Hall Ticket Number'' body
         \<and> posts (snd (mcp_generate_result (env_answering 200 ''<html>marks</html>'')
               (frame [row_1866]) (Some ''1866'') (Some ''19H5A0501'') new_world))
             = posts new_world @ [rq]
         \<and> files (snd (mcp_generate_result (env_answering 200 ''<html>marks</html>'')
               (frame [row_1866]) (Some ''1866'') (Some ''19H5A0501'') new_world))
             = files new_world @ [(path, bytes)])"
proof -
  let ?body = "''<html>Invalid Hall Ticket Number</html>''"
  let ?e = "env_answering 200 ?body"
  let ?df = "frame [row_1866]"
  let ?url = "''http://results.jntuh.ac.in/jsp/SearchResult.jsp?degree=btech&examCode=1866&etype=r17&type=intgrade''"
  let ?h = "''19H5A0501''"
  have d: "declared_schema ?df" and x: "exact_numbers ?df"
    by code_simp+
  have c: "''examCode'' \<in> set (columns ?df)"
    and s: "py_str (item ?df row_1866 ''examCode'') = ''1866''"
    by code_simp+
  have rs: "rows ?df = [row_1866]"
    by (simp add: frame_def)
  have f: "find_rows ?df ''1866'' = Inr (row_1866 # [])"
    unfolding find_rows_column [OF c] rs by (simp add: s)
  have u: "item ?df row_1866 ''URL'' = PStr ?url"
    by code_simp
  have q: "count_list ?url CHR ''?'' \<le> 1"
    by code_simp
  have n: "item ?df row_1866 ''degree'' \<noteq> PNaN" "item ?df row_1866 ''examCode'' \<noteq> PNaN"
    by code_simp+
  have b: "sublist ''Invalid Hall Ticket Number'' ?body"
    unfolding contains_sublist [symmetric] by code_simp
  have a: "find_rows ?df ''1866'' = Inr (row_1866 # []) \<and> exact_numbers ?df
      \<and> (sublist ''Invalid Hall Ticket Number'' ?body \<or> sublist ''No Records Found'' ?body)"
    using f x b by (intro conjI disjI1)
  from mcp_request_params [OF d u q n, of ?h]
  obtain rq where "mcp_request ?df row_1866 ?h = Inr rq \<and> req_referer rq = ?url
      \<and> map_of (req_data rq) =
          (declared_params ?df row_1866 ++ reference_params ?url)(''htno'' \<mapsto> PStr ?h)" ..
  then have rq: "mcp_request ?df row_1866 ?h = Inr rq"
    by (rule conjunct1)
  from app_request_params [OF d u q, of ?h]
  obtain rq' where "app_request ?df row_1866 ?h = Inr rq' \<and> req_referer rq' = ?url
      \<and> map_of (req_data rq') = (reference_params ?url)(''htno'' \<mapsto> PStr ?h)" ..
  then have rq': "app_request ?df row_1866 ?h = Inr rq'"
    by (rule conjunct1)
  have m: "mcp_request ?df row_1866 ?h = Inr rq \<and> post ?e rq = Response 200 ?body"
    using rq by (simp add: env_answering_def)
  have p: "''1866'' \<noteq> [] \<and> ?h \<noteq> [] \<and> app_request ?df row_1866 ?h = Inr rq'
      \<and> post ?e rq' = Response 200 ?body \<and> \<not> (400 \<le> (200::nat) \<and> (200::nat) < 600)"
    using rq' by (simp add: env_answering_def)
  note t = not_found_phrases [where df = ?df and exam_code = "''1866''" and r = row_1866
      and rest = "[]" and body = ?body and htno = ?h and e = ?e
      and status = 200 and w = new_world and rq = rq and rq' = rq',
      THEN conjunct1, THEN mp, OF a]
  have 1: "get_result_pdf ?e ?df ''1866'' ?h new_world =
      (Tool_error ''No records found for this roll number'',
       new_world\<lparr>posts := posts new_world @ [rq]\<rparr>)"
    by (rule t [THEN conjunct1, THEN mp, OF m])
  have 2: "mcp_generate_result ?e ?df (Some ''1866'') (Some ?h) new_world =
      (Error_reply 404 ''No records found for this roll number'',
       new_world\<lparr>posts := posts new_world @ [rq']\<rparr>)"
    by (rule t [THEN conjunct2, THEN mp, OF p])
  have 3: "fst (get_result_pdf ?e ?df ''1866'' ?h new_world)
      = Tool_error ''No records found for this roll number''"
    "files (snd (get_result_pdf ?e ?df ''1866'' ?h new_world)) = []"
    "fst (mcp_generate_result ?e ?df (Some ''1866'') (Some ?h) new_world)
      = Error_reply 404 ''No records found for this roll number''"
    "files (snd (mcp_generate_result ?e ?df (Some ''1866'') (Some ?h) new_world)) = []"
    unfolding 1 2 by (simp_all add: new_world_def)
  let ?ok = "env_answering 200 ''<html>marks</html>''"
  let ?p = "''static/pdfs/result_19H5A0501_1866_20250808_101500.pdf''"
  have g: "fst (get_result_pdf ?ok ?df ''1866'' ?h new_world) = Tool_success ?p"
    by code_simp
  have g': "get_result_pdf ?ok ?df ''1866'' ?h new_world
      = (Tool_success ?p, snd (get_result_pdf ?ok ?df ''1866'' ?h new_world))"
    unfolding g [symmetric] by simp
  note mcp_ok = not_found_phrases [where df = ?df and exam_code = "''1866''" and htno = ?h
      and e = ?ok and w = new_world, THEN conjunct2, THEN conjunct1, THEN spec, THEN spec,
      THEN mp, OF g']
  let ?u = "''/static/pdfs/result_19H5A0501_1866_20250808_101500.pdf''"
  let ?fn = "''result_19H5A0501_1866_20250808_101500.pdf''"
  have a0: "fst (mcp_generate_result ?ok ?df (Some ''1866'') (Some ?h) new_world)
      = Success_reply ?u ?fn 18"
    by code_simp
  have a': "mcp_generate_result ?ok ?df (Some ''1866'') (Some ?h) new_world
      = (Success_reply ?u ?fn 18,
         snd (mcp_generate_result ?ok ?df (Some ''1866'') (Some ?h) new_world))"
    unfolding a0 [symmetric] by simp
  note app_ok = not_found_phrases [where df = ?df and c = "Some ''1866''" and h = "Some ?h"
      and e = ?ok and w = new_world, THEN conjunct2, THEN conjunct2, THEN spec, THEN spec,
      THEN spec, THEN spec, THEN mp, OF a']
  show ?thesis
    by (intro conjI 3 g mcp_ok a0 app_ok)
qed

end
